theory Spec2Isabelle
  imports Complex_Main
begin

section \<open>Python values of a raw field bag\<close>

text \<open>
  The functions of \<^verbatim>\<open>excel_import_code_fix.py\<close> work on dictionaries from field names to
  scalar values. A value is \<^verbatim>\<open>None\<close>, a \<^verbatim>\<open>bool\<close>, an \<^verbatim>\<open>int\<close>, a \<^verbatim>\<open>float\<close>, a \<^verbatim>\<open>str\<close> or a
  \<^verbatim>\<open>datetime.date\<close>. Strings are lists of 8-bit characters, read as the code points
  0 to 255 (Latin-1); the string methods below are the Python ones on that range.
\<close>

record date =
  year :: nat
  month :: nat
  day :: nat

text \<open>
  A \<^verbatim>\<open>float\<close> is an IEEE 754 double: a finite value is the rational it denotes, and the
  negative zero, the infinities and the NaN are values of their own.
\<close>

datatype pyfloat = Finite rat | NegZero | PosInf | NegInf | NaN

datatype pyval =
    PNone
  | PBool bool
  | PInt int
  | PFloat pyfloat
  | PStr string
  | PDate date

text \<open>An exception is its class name and its message (\<^verbatim>\<open>str(e)\<close>).\<close>

datatype exn = Exn string string

fun exn_str :: "exn \<Rightarrow> string" where
  "exn_str (Exn cls msg) = msg"

type_synonym pydict = "string \<rightharpoonup> pyval"

text \<open>\<^verbatim>\<open>d.get(k, default)\<close>\<close>

definition dict_get :: "pydict \<Rightarrow> string \<Rightarrow> pyval \<Rightarrow> pyval" where
  "dict_get d k dflt = (case d k of Some v \<Rightarrow> v | None \<Rightarrow> dflt)"

subsection \<open>String methods\<close>

text \<open>
  \<^verbatim>\<open>str.isspace\<close> on one character: the code points 9 to 13, 28 to 32, 133 and 160.
\<close>

definition is_space :: "char \<Rightarrow> bool" where
  "is_space c = (let n = (of_char c :: nat) in
     (9 \<le> n \<and> n \<le> 13) \<or> (28 \<le> n \<and> n \<le> 32) \<or> n = 133 \<or> n = 160)"

definition lstrip :: "string \<Rightarrow> string" where
  "lstrip s = dropWhile is_space s"

definition rstrip :: "string \<Rightarrow> string" where
  "rstrip s = rev (dropWhile is_space (rev s))"

text \<open>\<^verbatim>\<open>s.strip()\<close>\<close>

definition strip :: "string \<Rightarrow> string" where
  "strip s = rstrip (lstrip s)"

text \<open>\<^verbatim>\<open>s.endswith(suffix)\<close> and \<^verbatim>\<open>s.endswith((suffix, ...))\<close>\<close>

definition endswith :: "string \<Rightarrow> string \<Rightarrow> bool" where
  "endswith s suf = (take (length suf) (rev s) = rev suf)"

definition endswith_any :: "string \<Rightarrow> string list \<Rightarrow> bool" where
  "endswith_any s sufs = list_ex (endswith s) sufs"

text \<open>
  \<^verbatim>\<open>s.lower()\<close>: the letters A to Z and the Latin-1 capitals 192 to 222 (but 215, the
  multiplication sign) move up by 32.
\<close>

definition lower_char :: "char \<Rightarrow> char" where
  "lower_char c = (let n = (of_char c :: nat) in
     if (65 \<le> n \<and> n \<le> 90) \<or> (192 \<le> n \<and> n \<le> 222 \<and> n \<noteq> 215)
     then char_of (n + 32) else c)"

definition lower :: "string \<Rightarrow> string" where
  "lower s = map lower_char s"

definition is_ascii_upper :: "char \<Rightarrow> bool" where
  "is_ascii_upper c = (let n = (of_char c :: nat) in 65 \<le> n \<and> n \<le> 90)"

definition is_ascii_lower :: "char \<Rightarrow> bool" where
  "is_ascii_lower c = (let n = (of_char c :: nat) in 97 \<le> n \<and> n \<le> 122)"

definition upper_char :: "char \<Rightarrow> char" where
  "upper_char c = (if is_ascii_lower c then char_of ((of_char c :: nat) - 32) else c)"

text \<open>
  \<^verbatim>\<open>s.title()\<close>, for ASCII strings (the source applies it to its own field names only): a
  letter that follows a letter is lowercased, any other letter is uppercased.
\<close>

fun title_from :: "bool \<Rightarrow> string \<Rightarrow> string" where
  "title_from prev_cased [] = []"
| "title_from prev_cased (c # cs) =
     (if is_ascii_upper c \<or> is_ascii_lower c
      then (if prev_cased then lower_char c else upper_char c) # title_from True cs
      else c # title_from False cs)"

definition title :: "string \<Rightarrow> string" where
  "title s = title_from False s"

text \<open>\<^verbatim>\<open>s.replace(old, new)\<close> for one-character \<^verbatim>\<open>old\<close> and \<^verbatim>\<open>new\<close>\<close>

definition replace_char :: "char \<Rightarrow> char \<Rightarrow> string \<Rightarrow> string" where
  "replace_char old new s = map (\<lambda>c. if c = old then new else c) s"

subsection \<open>Decimal digits\<close>

definition is_digit :: "char \<Rightarrow> bool" where
  "is_digit c = (let n = (of_char c :: nat) in 48 \<le> n \<and> n \<le> 57)"

definition digit_val :: "char \<Rightarrow> nat" where
  "digit_val c = of_char c - 48"

text \<open>The value of a string of decimal digits, most significant first.\<close>

definition nat_of_digits :: "string \<Rightarrow> nat" where
  "nat_of_digits ds = foldl (\<lambda>acc c. 10 * acc + digit_val c) 0 ds"

fun digits_of_nat :: "nat \<Rightarrow> string" where
  "digits_of_nat n =
     (if n < 10 then [''0123456789'' ! n]
      else digits_of_nat (n div 10) @ [''0123456789'' ! (n mod 10)])"

text \<open>\<^verbatim>\<open>str(n)\<close> for an \<^verbatim>\<open>int\<close>\<close>

definition str_of_int :: "int \<Rightarrow> string" where
  "str_of_int i = (if i < 0 then CHR ''-'' # digits_of_nat (nat (- i)) else digits_of_nat (nat i))"

text \<open>\<^verbatim>\<open>'%0*d' % (width, n)\<close>: zero padding on the left.\<close>

definition zero_pad :: "nat \<Rightarrow> nat \<Rightarrow> string" where
  "zero_pad width n = (let ds = digits_of_nat n in replicate (width - length ds) CHR ''0'' @ ds)"

section \<open>The \<^verbatim>\<open>float\<close> built-ins\<close>

subsection \<open>Rounding to a double\<close>

fun bit_length :: "nat \<Rightarrow> nat" where
  "bit_length n = (if n = 0 then 0 else Suc (bit_length (n div 2)))"

definition pow2 :: "int \<Rightarrow> rat" where
  "pow2 k = (if 0 \<le> k then 2 ^ nat k else 1 / 2 ^ nat (- k))"

definition pow10 :: "int \<Rightarrow> rat" where
  "pow10 k = (if 0 \<le> k then 10 ^ nat k else 1 / 10 ^ nat (- k))"

text \<open>\<open>\<lfloor>log\<^sub>2 q\<rfloor>\<close> for a positive rational.\<close>

definition floor_log2 :: "rat \<Rightarrow> int" where
  "floor_log2 q =
     (let (a, b) = quotient_of q;
          k = int (bit_length (nat a)) - int (bit_length (nat b))
      in if pow2 k \<le> q then k else k - 1)"

definition round_half_even :: "rat \<Rightarrow> int" where
  "round_half_even x =
     (let f = \<lfloor>x\<rfloor>; d = x - of_int f
      in if d < 1 / 2 then f else if 1 / 2 < d then f + 1 else if even f then f else f + 1)"

text \<open>
  The double nearest to a magnitude \<open>q \<ge> 0\<close>, ties to even: 53 significant bits, the
  exponent of the last bit no smaller than \<open>-1074\<close>; \<open>None\<close> when the rounded value is
  beyond the largest double.
\<close>

definition nearest_double :: "rat \<Rightarrow> rat option" where
  "nearest_double q =
     (if q = 0 then Some 0
      else let e = max (floor_log2 q - 52) (- 1074);
               r = of_int (round_half_even (q / pow2 e)) * pow2 e
           in if pow2 1024 \<le> r then None else Some r)"

definition make_float :: "bool \<Rightarrow> rat \<Rightarrow> pyfloat option" where
  "make_float neg q =
     (case nearest_double q of
        None \<Rightarrow> None
      | Some r \<Rightarrow> Some (if r = 0 then (if neg then NegZero else Finite 0)
                        else Finite (if neg then - r else r)))"

subsection \<open>\<^verbatim>\<open>float(s)\<close> for a string\<close>

text \<open>
  \<^verbatim>\<open>float\<close> drops the white space around the literal: the ASCII white space 9 to 13 and
  32, and the Latin-1 spaces 133 and 160.
\<close>

definition is_float_space :: "char \<Rightarrow> bool" where
  "is_float_space c = (let n = (of_char c :: nat) in
     (9 \<le> n \<and> n \<le> 13) \<or> n = 32 \<or> n = 133 \<or> n = 160)"

definition float_strip :: "string \<Rightarrow> string" where
  "float_strip s = rev (dropWhile is_float_space (rev (dropWhile is_float_space s)))"

text \<open>
  An underscore is allowed between two digits only, and is dropped; \<open>prev\<close> is the
  character before.
\<close>

fun drop_underscores :: "char option \<Rightarrow> string \<Rightarrow> string option" where
  "drop_underscores prev [] = (if prev = Some CHR ''_'' then None else Some [])"
| "drop_underscores prev (c # cs) =
     (if c = CHR ''_'' then
        (case prev of
           Some p \<Rightarrow> if is_digit p then drop_underscores (Some c) cs else None
         | None \<Rightarrow> None)
      else if prev = Some CHR ''_'' \<and> \<not> is_digit c then None
      else map_option ((#) c) (drop_underscores (Some c) cs))"

fun split_sign :: "string \<Rightarrow> bool \<times> string" where
  "split_sign [] = (False, [])"
| "split_sign (c # cs) =
     (if c = CHR ''-'' then (True, cs) else if c = CHR ''+'' then (False, cs)
      else (False, c # cs))"

text \<open>
  The exponent part of a literal: empty, or \<^verbatim>\<open>e\<close> or \<^verbatim>\<open>E\<close>, an optional sign and one
  digit at least, up to the end of the string.
\<close>

definition parse_exponent :: "string \<Rightarrow> int option" where
  "parse_exponent s =
     (case s of
        [] \<Rightarrow> Some 0
      | c # cs \<Rightarrow>
          if c = CHR ''e'' \<or> c = CHR ''E'' then
            (let (neg, ds) = split_sign cs in
             if ds \<noteq> [] \<and> list_all is_digit ds
             then Some (if neg then - int (nat_of_digits ds) else int (nat_of_digits ds))
             else None)
          else None)"

text \<open>
  The magnitude of an unsigned decimal literal: digits, an optional point and digits
  (one digit at least on one side of the point), an optional exponent.
\<close>

definition parse_decimal :: "string \<Rightarrow> rat option" where
  "parse_decimal s =
     (let ip = takeWhile is_digit s; r1 = dropWhile is_digit s;
          (fp, r2) = (case r1 of
                        c # cs \<Rightarrow> if c = CHR ''.'' then (takeWhile is_digit cs, dropWhile is_digit cs)
                                  else ([], r1)
                      | [] \<Rightarrow> ([], r1))
      in if ip = [] \<and> fp = [] then None
         else (case parse_exponent r2 of
                 None \<Rightarrow> None
               | Some ex \<Rightarrow> Some (of_nat (nat_of_digits (ip @ fp)) * pow10 (ex - int (length fp)))))"

definition float_of_str :: "string \<Rightarrow> exn + pyfloat" where
  "float_of_str s =
     (let bad = Inl (Exn ''ValueError'' ''could not convert string to float'') in
      case drop_underscores None (float_strip s) of
        None \<Rightarrow> bad
      | Some t \<Rightarrow>
          (let (neg, body) = split_sign t; word = lower body in
           if word = ''inf'' \<or> word = ''infinity'' then Inr (if neg then NegInf else PosInf)
           else if word = ''nan'' then Inr NaN
           else (case parse_decimal body of
                   None \<Rightarrow> bad
                 | Some q \<Rightarrow>
                     (case make_float neg q of
                        None \<Rightarrow> Inr (if neg then NegInf else PosInf)
                      | Some x \<Rightarrow> Inr x))))"

text \<open>\<^verbatim>\<open>float(n)\<close> for an \<^verbatim>\<open>int\<close>\<close>

definition float_of_int :: "int \<Rightarrow> exn + pyfloat" where
  "float_of_int n =
     (case make_float (n < 0) (of_int \<bar>n\<bar>) of
        None \<Rightarrow> Inl (Exn ''OverflowError'' ''int too large to convert to float'')
      | Some x \<Rightarrow> Inr x)"

text \<open>\<^verbatim>\<open>bool(x)\<close> for a \<^verbatim>\<open>float\<close>: false for the two zeros only.\<close>

fun float_bool :: "pyfloat \<Rightarrow> bool" where
  "float_bool (Finite q) = (q \<noteq> 0)"
| "float_bool NegZero = False"
| "float_bool _ = True"

subsection \<open>\<^verbatim>\<open>str(x)\<close> for a \<^verbatim>\<open>float\<close>\<close>

text \<open>\<open>\<lfloor>log\<^sub>1\<^sub>0 q\<rfloor>\<close> for a positive rational.\<close>

definition floor_log10 :: "rat \<Rightarrow> int" where
  "floor_log10 q =
     (let (a, b) = quotient_of q;
          k = int (length (digits_of_nat (nat a))) - int (length (digits_of_nat (nat b)))
      in if pow10 k \<le> q then k else k - 1)"

text \<open>
  The shortest decimal that reads back as the double \<open>q > 0\<close>: for 1, 2, ... significant
  digits, the two decimals of that many digits next to \<open>q\<close> are tried, and of two that
  read back as \<open>q\<close> the nearer one is taken. \<open>decpt\<close> is the position of the decimal
  point of \<open>q\<close>.
\<close>

fun shortest_decimal :: "rat \<Rightarrow> int \<Rightarrow> nat list \<Rightarrow> rat" where
  "shortest_decimal q decpt [] = q"
| "shortest_decimal q decpt (n # ns) =
     (let u = pow10 (decpt - int n); lo = \<lfloor>q / u\<rfloor>;
          a = of_int lo * u; b = of_int (lo + 1) * u;
          oka = (nearest_double a = Some q); okb = (nearest_double b = Some q)
      in if oka \<and> okb then
           (if q - a < b - q then a else if b - q < q - a then b
            else if even lo then a else b)
         else if oka then a
         else if okb then b
         else shortest_decimal q decpt ns)"

text \<open>
  The layout of \<^verbatim>\<open>repr\<close>: the digits \<open>ds\<close> with the decimal point after the first
  \<open>decpt\<close> of them; an exponent when \<open>decpt\<close> is below \<open>-3\<close> or above 16.
\<close>

definition format_repr :: "string \<Rightarrow> int \<Rightarrow> string" where
  "format_repr ds decpt =
     (let n = int (length ds) in
      if decpt \<le> - 4 \<or> 16 < decpt then
        take 1 ds @ (if 1 < n then CHR ''.'' # drop 1 ds else []) @ ''e''
          @ (if decpt - 1 < 0 then ''-'' else ''+'') @ zero_pad 2 (nat \<bar>decpt - 1\<bar>)
      else if decpt \<le> 0 then ''0.'' @ replicate (nat (- decpt)) CHR ''0'' @ ds
      else if n \<le> decpt then ds @ replicate (nat (decpt - n)) CHR ''0'' @ ''.0''
      else take (nat decpt) ds @ ''.'' @ drop (nat decpt) ds)"

definition repr_positive :: "rat \<Rightarrow> string" where
  "repr_positive q =
     (let v = shortest_decimal q (floor_log10 q + 1) [1..<18];
          decpt = floor_log10 v + 1;
          m = nat \<lfloor>v * pow10 (17 - decpt)\<rfloor>;
          ds = rev (dropWhile (\<lambda>c. c = CHR ''0'') (rev (digits_of_nat m)))
      in format_repr ds decpt)"

fun float_str :: "pyfloat \<Rightarrow> string" where
  "float_str (Finite q) =
     (if q = 0 then ''0.0'' else if q < 0 then CHR ''-'' # repr_positive (- q)
      else repr_positive q)"
| "float_str NegZero = ''-0.0''"
| "float_str PosInf = ''inf''"
| "float_str NegInf = ''-inf''"
| "float_str NaN = ''nan''"

section \<open>Dates\<close>

definition is_leap :: "nat \<Rightarrow> bool" where
  "is_leap y = (y mod 4 = 0 \<and> (y mod 100 \<noteq> 0 \<or> y mod 400 = 0))"

definition days_in_month :: "nat \<Rightarrow> nat \<Rightarrow> nat" where
  "days_in_month y m =
     (if m = 2 then (if is_leap y then 29 else 28)
      else if m = 4 \<or> m = 6 \<or> m = 9 \<or> m = 11 then 30 else 31)"

text \<open>\<^verbatim>\<open>str(d)\<close> for a date: \<^verbatim>\<open>'%04d-%02d-%02d'\<close>\<close>

definition isoformat :: "date \<Rightarrow> string" where
  "isoformat d = zero_pad 4 (year d) @ ''-'' @ zero_pad 2 (month d) @ ''-'' @ zero_pad 2 (day d)"

subsection \<open>\<^verbatim>\<open>datetime.strptime(s, '%Y-%m-%d').date()\<close>\<close>

text \<open>
  \<^verbatim>\<open>strptime\<close> matches the string against the regular expression of the format,
  \<^verbatim>\<open>(\d\d\d\d)-(1[0-2]|0[1-9]|[1-9])-(3[0-1]|[1-2]\d|0[1-9]|[1-9]| [1-9])\<close>, with the
  alternatives tried in this order, then refuses a string with characters left over,
  and builds the date, which checks the year and the day of the month.
\<close>

definition is_nonzero_digit :: "char \<Rightarrow> bool" where
  "is_nonzero_digit c = (is_digit c \<and> c \<noteq> CHR ''0'')"

definition expect_char :: "char \<Rightarrow> string \<Rightarrow> string option" where
  "expect_char c s = (case s of [] \<Rightarrow> None | x # xs \<Rightarrow> if x = c then Some xs else None)"

definition match_year :: "string \<Rightarrow> (nat \<times> string) option" where
  "match_year s =
     (if 4 \<le> length s \<and> list_all is_digit (take 4 s)
      then Some (nat_of_digits (take 4 s), drop 4 s) else None)"

fun match_month :: "string \<Rightarrow> (nat \<times> string) option" where
  "match_month [] = None"
| "match_month [c] = (if is_nonzero_digit c then Some (digit_val c, []) else None)"
| "match_month (c1 # c2 # cs) =
     (if c1 = CHR ''1'' \<and> (c2 = CHR ''0'' \<or> c2 = CHR ''1'' \<or> c2 = CHR ''2'')
        then Some (10 + digit_val c2, cs)
      else if c1 = CHR ''0'' \<and> is_nonzero_digit c2 then Some (digit_val c2, cs)
      else if is_nonzero_digit c1 then Some (digit_val c1, c2 # cs)
      else None)"

fun match_day :: "string \<Rightarrow> (nat \<times> string) option" where
  "match_day [] = None"
| "match_day [c] = (if is_nonzero_digit c then Some (digit_val c, []) else None)"
| "match_day (c1 # c2 # cs) =
     (if c1 = CHR ''3'' \<and> (c2 = CHR ''0'' \<or> c2 = CHR ''1'') then Some (30 + digit_val c2, cs)
      else if (c1 = CHR ''1'' \<or> c1 = CHR ''2'') \<and> is_digit c2
        then Some (10 * digit_val c1 + digit_val c2, cs)
      else if c1 = CHR ''0'' \<and> is_nonzero_digit c2 then Some (digit_val c2, cs)
      else if is_nonzero_digit c1 then Some (digit_val c1, c2 # cs)
      else if c1 = CHR '' '' \<and> is_nonzero_digit c2 then Some (digit_val c2, cs)
      else None)"

text \<open>The match of the format: year, month, day and the characters left over.\<close>

definition match_ymd :: "string \<Rightarrow> (nat \<times> nat \<times> nat \<times> string) option" where
  "match_ymd s =
     Option.bind (match_year s) (\<lambda>(y, r1).
     Option.bind (expect_char CHR ''-'' r1) (\<lambda>r2.
     Option.bind (match_month r2) (\<lambda>(m, r3).
     Option.bind (expect_char CHR ''-'' r3) (\<lambda>r4.
     Option.bind (match_day r4) (\<lambda>(d, r5). Some (y, m, d, r5))))))"

definition strptime_ymd :: "string \<Rightarrow> exn + date" where
  "strptime_ymd s =
     (case match_ymd s of
        None \<Rightarrow> Inl (Exn ''ValueError'' ''time data does not match format'')
      | Some (y, m, d, rest) \<Rightarrow>
          if rest \<noteq> [] then Inl (Exn ''ValueError'' ''unconverted data remains'')
          else if y < 1 then Inl (Exn ''ValueError'' ''year 0 is out of range'')
          else if days_in_month y m < d
            then Inl (Exn ''ValueError'' ''day is out of range for month'')
          else Inr \<lparr>year = y, month = m, day = d\<rparr>)"

section \<open>Built-ins on values\<close>

text \<open>\<^verbatim>\<open>type(v).__name__\<close>, as an \<^verbatim>\<open>AttributeError\<close> prints it.\<close>

fun type_name :: "pyval \<Rightarrow> string" where
  "type_name PNone = ''NoneType''"
| "type_name (PBool b) = ''bool''"
| "type_name (PInt i) = ''int''"
| "type_name (PFloat x) = ''float''"
| "type_name (PStr s) = ''str''"
| "type_name (PDate d) = ''datetime.date''"

definition no_attribute :: "pyval \<Rightarrow> string \<Rightarrow> exn" where
  "no_attribute v name =
     Exn ''AttributeError''
       ([CHR 0x27] @ type_name v @ [CHR 0x27] @ '' object has no attribute ''
          @ [CHR 0x27] @ name @ [CHR 0x27])"

text \<open>\<^verbatim>\<open>bool(v)\<close>, the test of \<^verbatim>\<open>if v:\<close> and \<^verbatim>\<open>if not v:\<close>\<close>

fun truthy :: "pyval \<Rightarrow> bool" where
  "truthy PNone = False"
| "truthy (PBool b) = b"
| "truthy (PInt i) = (i \<noteq> 0)"
| "truthy (PFloat x) = float_bool x"
| "truthy (PStr s) = (s \<noteq> [])"
| "truthy (PDate d) = True"

text \<open>\<^verbatim>\<open>str(v)\<close>\<close>

fun py_str :: "pyval \<Rightarrow> string" where
  "py_str PNone = ''None''"
| "py_str (PBool b) = (if b then ''True'' else ''False'')"
| "py_str (PInt i) = str_of_int i"
| "py_str (PFloat x) = float_str x"
| "py_str (PStr s) = s"
| "py_str (PDate d) = isoformat d"

text \<open>\<^verbatim>\<open>float(v)\<close>\<close>

fun py_float :: "pyval \<Rightarrow> exn + pyfloat" where
  "py_float (PStr s) = float_of_str s"
| "py_float (PInt i) = float_of_int i"
| "py_float (PFloat x) = Inr x"
| "py_float (PBool b) = float_of_int (if b then 1 else 0)"
| "py_float v =
     Inl (Exn ''TypeError'' ''float() argument must be a string or a real number'')"

text \<open>
  \<^verbatim>\<open>v.endswith((suffix, ...))\<close> and \<^verbatim>\<open>v.lower()\<close>: methods of \<^verbatim>\<open>str\<close>; on a value of any
  other type the attribute lookup raises \<^verbatim>\<open>AttributeError\<close>.
\<close>

fun py_endswith :: "pyval \<Rightarrow> string list \<Rightarrow> exn + bool" where
  "py_endswith (PStr s) sufs = Inr (endswith_any s sufs)"
| "py_endswith v sufs = Inl (no_attribute v ''endswith'')"

fun py_lower :: "pyval \<Rightarrow> exn + string" where
  "py_lower (PStr s) = Inr (lower s)"
| "py_lower v = Inl (no_attribute v ''lower'')"

text \<open>\<^verbatim>\<open>inspection.name\<close> on an object with the attribute dictionary \<open>obj\<close>.\<close>

definition getattr :: "pydict \<Rightarrow> string \<Rightarrow> exn + pyval" where
  "getattr obj name =
     (case obj name of
        Some v \<Rightarrow> Inr v
      | None \<Rightarrow> Inl (Exn ''AttributeError''
          ([CHR 0x27] @ ''Inspection'' @ [CHR 0x27] @ '' object has no attribute ''
             @ [CHR 0x27] @ name @ [CHR 0x27])))"

section \<open>\<^verbatim>\<open>validate_and_clean_excel_data\<close>\<close>

text \<open>
  The function reads the system clock twice at most: \<^verbatim>\<open>int(datetime.now().timestamp() * 1000)\<close>
  for a generated report number and \<^verbatim>\<open>datetime.now().date()\<close> for a defaulted
  inspection date. Both readings are inputs of the model.
\<close>

record clock =
  timestamp_ms :: int
  today :: date

text \<open>Lines 20 to 25: the tank id.\<close>

definition looks_like_filename :: "string \<Rightarrow> bool" where
  "looks_like_filename s = endswith_any s [''.xlsx'', ''.xls'', ''.csv'']"

definition clean_tank_id :: "pydict \<Rightarrow> exn + pyval" where
  "clean_tank_id raw_data =
     (let tank_id = dict_get raw_data ''tank_id'' (dict_get raw_data ''Tank ID'' (PStr '''')) in
      case py_endswith tank_id [''.xlsx'', ''.xls'', ''.csv''] of
        Inl e \<Rightarrow> Inl e
      | Inr is_filename \<Rightarrow>
          (let tank_id =
                 (if is_filename
                  then dict_get raw_data ''tank_number''
                         (dict_get raw_data ''unit_id'' (PStr ''UNKNOWN''))
                  else tank_id)
           in Inr (PStr (strip (py_str tank_id)))))"

text \<open>Lines 27 to 33: the report number.\<close>

definition clean_report_number :: "clock \<Rightarrow> pydict \<Rightarrow> pyval" where
  "clean_report_number clk raw_data =
     (let report_num =
            dict_get raw_data ''report_number'' (dict_get raw_data ''Report Number'' (PStr ''''));
          report_num =
            (if \<not> truthy report_num then PStr (''IMP-'' @ str_of_int (timestamp_ms clk))
             else report_num)
      in PStr (strip (py_str report_num)))"

text \<open>Lines 35 to 46: the service type.\<close>

definition service_mapping :: "string \<rightharpoonup> string" where
  "service_mapping = map_of
     [(''crude_oil'', ''Crude Oil''),
      (''crude oil'', ''Crude Oil''),
      (''diesel'', ''Diesel''),
      (''gasoline'', ''Gasoline''),
      (''alcohol'', ''Alcohol''),
      (''fish oil and sludge oil'', ''Fish Oil and Sludge Oil''),
      (''other'', ''Other'')]"

definition clean_service :: "pydict \<Rightarrow> exn + pyval" where
  "clean_service raw_data =
     (let service = dict_get raw_data ''service''
                      (dict_get raw_data ''Service'' (dict_get raw_data ''product'' (PStr '''')))
      in case py_lower service of
           Inl e \<Rightarrow> Inl e
         | Inr key \<Rightarrow>
             Inr (case service_mapping key of Some canonical \<Rightarrow> PStr canonical | None \<Rightarrow> service))"

text \<open>Lines 48 to 50: the inspector.\<close>

definition clean_inspector :: "pydict \<Rightarrow> pyval" where
  "clean_inspector raw_data =
     (let inspector = dict_get raw_data ''inspector''
                        (dict_get raw_data ''Inspector'' (PStr ''Unknown Inspector''))
      in PStr (strip (py_str inspector)))"

text \<open>
  Lines 52 to 64: the inspection date. The bare \<^verbatim>\<open>except:\<close> replaces every exception of
  the parse by the current date.
\<close>

definition clean_inspection_date :: "clock \<Rightarrow> pydict \<Rightarrow> pyval" where
  "clean_inspection_date clk raw_data =
     (let inspection_date = dict_get raw_data ''inspection_date''
                              (dict_get raw_data ''Inspection Date'' (PStr ''''))
      in if truthy inspection_date then
           (case inspection_date of
              PStr s \<Rightarrow> (case strptime_ymd s of
                           Inr d \<Rightarrow> PDate d
                         | Inl e \<Rightarrow> PDate (today clk))
            | _ \<Rightarrow> inspection_date)
         else PDate (today clk))"

text \<open>
  Lines 66 to 73: one numeric field. The bare \<^verbatim>\<open>except:\<close> replaces every exception of
  \<^verbatim>\<open>float(value)\<close> by the integer 0.
\<close>

definition numeric_fields :: "string list" where
  "numeric_fields = [''diameter'', ''height'', ''capacity'', ''year_built'']"

definition field_label :: "string \<Rightarrow> string" where
  "field_label field = title (replace_char CHR ''_'' CHR '' '' field)"

definition clean_numeric_field :: "pydict \<Rightarrow> string \<Rightarrow> pyval" where
  "clean_numeric_field raw_data field =
     (let val = dict_get raw_data field (dict_get raw_data (field_label field) (PInt 0))
      in if truthy val then (case py_float val of Inr x \<Rightarrow> PFloat x | Inl e \<Rightarrow> PInt 0)
         else PInt 0)"

text \<open>Lines 75 to 79: one text field.\<close>

definition text_fields :: "string list" where
  "text_fields = [''shell_material'', ''roof_type'', ''foundation_type'']"

definition clean_text_field :: "pydict \<Rightarrow> string \<Rightarrow> pyval" where
  "clean_text_field raw_data field =
     (let val = dict_get raw_data field (dict_get raw_data (field_label field) (PStr ''''))
      in PStr (strip (py_str val)))"

text \<open>
  The function: the entries of \<^verbatim>\<open>cleaned_data\<close> are assigned in the source's order, and
  the first exception (of \<^verbatim>\<open>tank_id.endswith\<close>, then of \<^verbatim>\<open>service.lower\<close>) leaves it.
\<close>

definition validate_and_clean_excel_data :: "clock \<Rightarrow> pydict \<Rightarrow> exn + pydict" where
  "validate_and_clean_excel_data clk raw_data =
     (case clean_tank_id raw_data of
        Inl e \<Rightarrow> Inl e
      | Inr tank_id \<Rightarrow>
          (let cleaned_data = Map.empty(''tank_id'' \<mapsto> tank_id);
               cleaned_data = cleaned_data(''report_number'' \<mapsto> clean_report_number clk raw_data)
           in case clean_service raw_data of
                Inl e \<Rightarrow> Inl e
              | Inr service \<Rightarrow>
                  (let cleaned_data = cleaned_data(''service'' \<mapsto> service);
                       cleaned_data = cleaned_data(''inspector'' \<mapsto> clean_inspector raw_data);
                       cleaned_data =
                         cleaned_data(''inspection_date'' \<mapsto> clean_inspection_date clk raw_data);
                       cleaned_data =
                         fold (\<lambda>field cd. cd(field \<mapsto> clean_numeric_field raw_data field))
                           numeric_fields cleaned_data;
                       cleaned_data =
                         fold (\<lambda>field cd. cd(field \<mapsto> clean_text_field raw_data field))
                           text_fields cleaned_data
                   in Inr cleaned_data)))"

section \<open>\<^verbatim>\<open>create_inspection_from_excel_data\<close> and \<^verbatim>\<open>process_excel_import\<close>\<close>

text \<open>
  The class \<^verbatim>\<open>Inspection\<close> and its object store belong to the surrounding application,
  and \<^verbatim>\<open>pandas\<close> reads the workbook: they are parameters. An object is its attribute
  dictionary; \<open>'db\<close> is the state of the store.
  \<^item> \<open>construct\<close> is \<^verbatim>\<open>Inspection(**kwargs)\<close>;
  \<^item> \<open>save\<close> is \<^verbatim>\<open>inspection.save()\<close>: the object after the call, or the exception, and
    the store after the call;
  \<^item> \<open>objects_get\<close> is \<^verbatim>\<open>Inspection.objects.get(report_number=...)\<close>: an object
    (\<open>None\<close> for a result that is false as a condition), or the exception.

  Exceptions of the parameters are instances of \<^verbatim>\<open>Exception\<close>. The calls of the logger
  are left out.
\<close>

record 'db orm =
  construct :: "pydict \<Rightarrow> exn + pydict"
  save :: "pydict \<Rightarrow> 'db \<Rightarrow> (exn + pydict) \<times> 'db"
  objects_get :: "pyval \<Rightarrow> 'db \<Rightarrow> exn + pydict option"

text \<open>Lines 94 to 111: the constructor arguments, without the entries that are \<^verbatim>\<open>None\<close>.\<close>

definition valid_constructor_fields :: "pydict \<Rightarrow> pydict" where
  "valid_constructor_fields cleaned_data =
     map_of (filter (\<lambda>(k, v). v \<noteq> PNone)
       [(''tank_id'', dict_get cleaned_data ''tank_id'' (PStr '''')),
        (''report_number'', dict_get cleaned_data ''report_number'' (PStr '''')),
        (''service'', dict_get cleaned_data ''service'' (PStr '''')),
        (''inspector'', dict_get cleaned_data ''inspector'' (PStr '''')),
        (''inspection_date'', dict_get cleaned_data ''inspection_date'' PNone),
        (''diameter'', dict_get cleaned_data ''diameter'' (PInt 0)),
        (''height'', dict_get cleaned_data ''height'' (PInt 0)),
        (''capacity'', dict_get cleaned_data ''capacity'' (PInt 0)),
        (''year_built'', dict_get cleaned_data ''year_built'' (PInt 0)),
        (''shell_material'', dict_get cleaned_data ''shell_material'' (PStr '''')),
        (''roof_type'', dict_get cleaned_data ''roof_type'' (PStr '''')),
        (''foundation_type'', dict_get cleaned_data ''foundation_type'' (PStr '''')),
        (''status'', PStr ''Draft'')])"

text \<open>Lines 117 to 120: \<^verbatim>\<open>setattr\<close> for each special field that is a key of the bag.\<close>

definition special_fields :: "string list" where
  "special_fields = [''findings'', ''recommendations'', ''notes'']"

definition attach_special_fields :: "pydict \<Rightarrow> pydict \<Rightarrow> pydict" where
  "attach_special_fields excel_data inspection =
     fold (\<lambda>field insp. case excel_data field of
                            Some v \<Rightarrow> insp(field \<mapsto> v)
                          | None \<Rightarrow> insp)
       special_fields inspection"

text \<open>
  The function. Its handler logs the exception and raises it again, so every exception
  of the body is the result.
\<close>

definition create_inspection_from_excel_data ::
    "'db orm \<Rightarrow> clock \<Rightarrow> pydict \<Rightarrow> 'db \<Rightarrow> (exn + pydict) \<times> 'db" where
  "create_inspection_from_excel_data app clk excel_data db =
     (case validate_and_clean_excel_data clk excel_data of
        Inl e \<Rightarrow> (Inl e, db)
      | Inr cleaned_data \<Rightarrow>
          (case construct app (valid_constructor_fields cleaned_data) of
             Inl e \<Rightarrow> (Inl e, db)
           | Inr inspection \<Rightarrow>
               (case save app (attach_special_fields excel_data inspection) db of
                  (Inl e, db') \<Rightarrow> (Inl e, db')
                | (Inr inspection, db') \<Rightarrow>
                    (case getattr inspection ''report_number'' of
                       Inl e \<Rightarrow> (Inl e, db')
                     | Inr report_number \<Rightarrow>
                         (case objects_get app report_number db' of
                            Inl e \<Rightarrow> (Inl e, db')
                          | Inr None \<Rightarrow>
                              (Inl (Exn ''Exception''
                                 ''Inspection was not properly saved to database''), db')
                          | Inr (Some saved_inspection) \<Rightarrow> (Inr inspection, db'))))))"

text \<open>
  \<^verbatim>\<open>process_excel_import\<close>: \<open>read_excel\<close> is \<^verbatim>\<open>pd.read_excel(file_path)\<close> followed by
  \<^verbatim>\<open>df.iloc[0].to_dict()\<close>, the first row as a dictionary or the exception of either.
\<close>

definition import_failed :: "exn \<Rightarrow> pydict" where
  "import_failed e =
     [''success'' \<mapsto> PBool False,
      ''error'' \<mapsto> PStr (exn_str e),
      ''message'' \<mapsto> PStr ''Excel import failed. Please check the file format and try again.'']"

definition process_excel_import ::
    "('p \<Rightarrow> exn + pydict) \<Rightarrow> 'db orm \<Rightarrow> clock \<Rightarrow> 'p \<Rightarrow> 'db \<Rightarrow> pydict \<times> 'db" where
  "process_excel_import read_excel app clk file_path db =
     (case read_excel file_path of
        Inl e \<Rightarrow> (import_failed e, db)
      | Inr excel_data \<Rightarrow>
          (case create_inspection_from_excel_data app clk excel_data db of
             (Inl e, db') \<Rightarrow> (import_failed e, db')
           | (Inr inspection, db') \<Rightarrow>
               (case getattr inspection ''id'' of
                  Inl e \<Rightarrow> (import_failed e, db')
                | Inr inspection_id \<Rightarrow>
                    (case getattr inspection ''report_number'' of
                       Inl e \<Rightarrow> (import_failed e, db')
                     | Inr report_number \<Rightarrow>
                         ([''success'' \<mapsto> PBool True,
                           ''inspection_id'' \<mapsto> inspection_id,
                           ''report_number'' \<mapsto> report_number,
                           ''message'' \<mapsto> PStr (''Successfully imported inspection ''
                                                   @ py_str report_number)], db')))))"

section \<open>Sample inputs\<close>

text \<open>The field of a result, \<open>None\<close> when the call raised.\<close>

definition field_of :: "exn + pydict \<Rightarrow> string \<Rightarrow> pyval option" where
  "field_of r k = (case r of Inr c \<Rightarrow> c k | Inl e \<Rightarrow> None)"

text \<open>Two readings of the clock, one millisecond apart.\<close>

definition sample_clock :: clock where
  "sample_clock =
     \<lparr>timestamp_ms = 1751694680592, today = \<lparr>year = 2025, month = 7, day = 5\<rparr>\<rparr>"

definition later_clock :: clock where
  "later_clock =
     \<lparr>timestamp_ms = 1751694680593, today = \<lparr>year = 2025, month = 7, day = 5\<rparr>\<rparr>"

text \<open>A reading of the clock on another day.\<close>

definition new_year_clock :: clock where
  "new_year_clock =
     \<lparr>timestamp_ms = 1767225600000, today = \<lparr>year = 2026, month = 1, day = 1\<rparr>\<rparr>"

text \<open>
  A store in memory, for the examples: the constructor keeps its arguments as the
  attributes, \<^verbatim>\<open>save\<close> numbers the object and appends it, and the lookup returns the
  first object with the report number (\<open>None\<close> when there is none).
\<close>

definition memory_app :: "pydict list orm" where
  "memory_app =
     \<lparr>construct = (\<lambda>kwargs. Inr kwargs),
      save = (\<lambda>obj db. (Inr (obj(''id'' \<mapsto> PInt (int (length db) + 1))),
                         db @ [obj(''id'' \<mapsto> PInt (int (length db) + 1))])),
      objects_get = (\<lambda>report_number db.
                       Inr (find (\<lambda>obj. obj ''report_number'' = Some report_number) db))\<rparr>"

text \<open>
  A reader for the examples: one workbook, whose first row is the \<^verbatim>\<open>sample_data\<close> of the
  source's \<^verbatim>\<open>__main__\<close> block, and \<^verbatim>\<open>FileNotFoundError\<close> for every other path.
\<close>

definition sample_data :: pydict where
  "sample_data =
     [''tank_id'' \<mapsto> PStr ''TANK-TEST-001'',
      ''report_number'' \<mapsto> PStr ''TEST-IMPORT-001'',
      ''service'' \<mapsto> PStr ''crude_oil'',
      ''inspector'' \<mapsto> PStr ''Jerry Hartfield'',
      ''findings'' \<mapsto> PStr ''Test findings data'',
      ''recommendations'' \<mapsto> PStr ''Test recommendations'']"

definition sample_reader :: "string \<Rightarrow> exn + pydict" where
  "sample_reader file_path =
     (if file_path = ''inspection.xlsx'' then Inr sample_data
      else Inl (Exn ''FileNotFoundError'' ''No such file or directory''))"

section \<open>Evaluation and the shape of the result\<close>

text \<open>
  The recursive equations of the digit functions are unfolded on numerals only, by name.
\<close>

declare digits_of_nat.simps [simp del]

declare bit_length.simps [simp del]

lemmas string_eval =
  strip_def lstrip_def rstrip_def is_space_def endswith_any_def endswith_def
  looks_like_filename_def lower_def lower_char_def upper_char_def is_ascii_upper_def
  is_ascii_lower_def title_def replace_char_def field_label_def char_of_def bit_Suc_0_iff
  str_of_int_def digits_of_nat.simps

lemmas clean_eval =
  dict_get_def clean_tank_id_def clean_report_number_def clean_service_def
  clean_inspector_def clean_inspection_date_def clean_numeric_field_def
  clean_text_field_def service_mapping_def field_of_def Let_def

lemma field_labels:
  "field_label ''diameter'' = ''Diameter''"
  "field_label ''height'' = ''Height''"
  "field_label ''capacity'' = ''Capacity''"
  "field_label ''year_built'' = ''Year Built''"
  "field_label ''shell_material'' = ''Shell Material''"
  "field_label ''roof_type'' = ''Roof Type''"
  "field_label ''foundation_type'' = ''Foundation Type''"
  by (simp_all add: string_eval)

text \<open>The two loops unrolled: the twelve entries of \<^verbatim>\<open>cleaned_data\<close>.\<close>

lemma validate_cases:
  "validate_and_clean_excel_data clk raw =
     (case clean_tank_id raw of
        Inl e \<Rightarrow> Inl e
      | Inr tid \<Rightarrow>
          (case clean_service raw of
             Inl e \<Rightarrow> Inl e
           | Inr sv \<Rightarrow>
               Inr [''tank_id'' \<mapsto> tid,
                    ''report_number'' \<mapsto> clean_report_number clk raw,
                    ''service'' \<mapsto> sv,
                    ''inspector'' \<mapsto> clean_inspector raw,
                    ''inspection_date'' \<mapsto> clean_inspection_date clk raw,
                    ''diameter'' \<mapsto> clean_numeric_field raw ''diameter'',
                    ''height'' \<mapsto> clean_numeric_field raw ''height'',
                    ''capacity'' \<mapsto> clean_numeric_field raw ''capacity'',
                    ''year_built'' \<mapsto> clean_numeric_field raw ''year_built'',
                    ''shell_material'' \<mapsto> clean_text_field raw ''shell_material'',
                    ''roof_type'' \<mapsto> clean_text_field raw ''roof_type'',
                    ''foundation_type'' \<mapsto> clean_text_field raw ''foundation_type'']))"
  unfolding validate_and_clean_excel_data_def numeric_fields_def text_fields_def Let_def
  by (simp split: sum.splits)

lemma clean_tank_id_str:
  assumes "dict_get raw ''tank_id'' (dict_get raw ''Tank ID'' (PStr '''')) = PStr s"
  shows "clean_tank_id raw =
           Inr (PStr (strip (py_str
             (if looks_like_filename s
              then dict_get raw ''tank_number'' (dict_get raw ''unit_id'' (PStr ''UNKNOWN''))
              else PStr s))))"
  using assms by (simp add: clean_tank_id_def looks_like_filename_def)

lemma clean_tank_id_Inr:
  assumes "clean_tank_id raw = Inr tid"
  shows "\<exists>s. dict_get raw ''tank_id'' (dict_get raw ''Tank ID'' (PStr '''')) = PStr s"
proof (cases "dict_get raw ''tank_id'' (dict_get raw ''Tank ID'' (PStr ''''))")
  case (PStr s)
  then show ?thesis by simp
qed (use assms in \<open>simp_all add: clean_tank_id_def\<close>)

lemma clean_service_str:
  assumes "dict_get raw ''service''
             (dict_get raw ''Service'' (dict_get raw ''product'' (PStr ''''))) = PStr s"
  shows "clean_service raw =
           Inr (PStr (case service_mapping (lower s) of Some canonical \<Rightarrow> canonical | None \<Rightarrow> s))"
  using assms by (simp add: clean_service_def split: option.splits)

lemma clean_service_Inr:
  assumes "clean_service raw = Inr sv"
  shows "\<exists>s. dict_get raw ''service''
               (dict_get raw ''Service'' (dict_get raw ''product'' (PStr ''''))) = PStr s"
proof (cases "dict_get raw ''service''
                (dict_get raw ''Service'' (dict_get raw ''product'' (PStr '''')))")
  case (PStr s)
  then show ?thesis by simp
qed (use assms in \<open>simp_all add: clean_service_def\<close>)

text \<open>
  The call returns exactly when the tank id and the service it resolves are strings.
\<close>

lemma validate_returns:
  assumes "dict_get raw ''tank_id'' (dict_get raw ''Tank ID'' (PStr '''')) = PStr s"
    and "dict_get raw ''service''
           (dict_get raw ''Service'' (dict_get raw ''product'' (PStr ''''))) = PStr t"
  shows "\<exists>c. validate_and_clean_excel_data clk raw = Inr c"
  by (simp add: validate_cases clean_tank_id_str [OF assms(1)] clean_service_str [OF assms(2)])

lemma validate_InrD:
  assumes "validate_and_clean_excel_data clk raw = Inr c"
  shows "\<exists>tid sv. clean_tank_id raw = Inr tid \<and> clean_service raw = Inr sv \<and>
           c = [''tank_id'' \<mapsto> tid,
                ''report_number'' \<mapsto> clean_report_number clk raw,
                ''service'' \<mapsto> sv,
                ''inspector'' \<mapsto> clean_inspector raw,
                ''inspection_date'' \<mapsto> clean_inspection_date clk raw,
                ''diameter'' \<mapsto> clean_numeric_field raw ''diameter'',
                ''height'' \<mapsto> clean_numeric_field raw ''height'',
                ''capacity'' \<mapsto> clean_numeric_field raw ''capacity'',
                ''year_built'' \<mapsto> clean_numeric_field raw ''year_built'',
                ''shell_material'' \<mapsto> clean_text_field raw ''shell_material'',
                ''roof_type'' \<mapsto> clean_text_field raw ''roof_type'',
                ''foundation_type'' \<mapsto> clean_text_field raw ''foundation_type'']"
  using assms unfolding validate_cases by (auto split: sum.splits)

lemma validate_fields:
  assumes "validate_and_clean_excel_data clk raw = Inr c"
  shows "\<exists>tid. clean_tank_id raw = Inr tid \<and> c ''tank_id'' = Some tid"
    and "c ''report_number'' = Some (clean_report_number clk raw)"
    and "\<exists>sv. clean_service raw = Inr sv \<and> c ''service'' = Some sv"
    and "c ''inspector'' = Some (clean_inspector raw)"
    and "c ''inspection_date'' = Some (clean_inspection_date clk raw)"
    and "c ''diameter'' = Some (clean_numeric_field raw ''diameter'')"
    and "c ''height'' = Some (clean_numeric_field raw ''height'')"
    and "c ''capacity'' = Some (clean_numeric_field raw ''capacity'')"
    and "c ''year_built'' = Some (clean_numeric_field raw ''year_built'')"
    and "c ''shell_material'' = Some (clean_text_field raw ''shell_material'')"
    and "c ''roof_type'' = Some (clean_text_field raw ''roof_type'')"
    and "c ''foundation_type'' = Some (clean_text_field raw ''foundation_type'')"
  using validate_InrD [OF assms] by auto

section \<open>Exceptions of the reconciliation\<close>

text \<open>
  C1. The claim: for every raw field bag, whatever the types of its values,
  \<^verbatim>\<open>validate_and_clean_excel_data\<close> returns a record and raises nothing. The code calls
  \<^verbatim>\<open>tank_id.endswith\<close> on the raw tank id before it converts it with \<^verbatim>\<open>str\<close>, and
  \<^verbatim>\<open>service.lower\<close> on the raw service: for a bag whose tank id is the integer 101 the
  call raises \<^verbatim>\<open>AttributeError\<close>, and so it does for a bag whose service is a NaN (what
  \<^verbatim>\<open>pandas\<close> gives for an empty cell).
\<close>

theorem validate_raises_on_non_string:
  "validate_and_clean_excel_data clk [''tank_id'' \<mapsto> PInt 101]
     = Inl (no_attribute (PInt 101) ''endswith'')
   \<and> validate_and_clean_excel_data clk
        [''tank_id'' \<mapsto> PStr ''T-1'', ''service'' \<mapsto> PFloat NaN]
     = Inl (no_attribute (PFloat NaN) ''lower'')"
  by (simp add: validate_cases clean_tank_id_def clean_service_def dict_get_def Let_def)

section \<open>Facts about the string methods\<close>

lemma endswith_iff: "endswith s suf \<longleftrightarrow> (\<exists>p. s = p @ suf)"
proof
  assume "endswith s suf"
  then have "rev s = rev suf @ drop (length suf) (rev s)"
    unfolding endswith_def by (metis append_take_drop_id)
  then have "s = rev (drop (length suf) (rev s)) @ suf"
    by (metis rev_append rev_rev_ident)
  then show "\<exists>p. s = p @ suf" ..
next
  assume "\<exists>p. s = p @ suf"
  then show "endswith s suf" by (auto simp: endswith_def)
qed

lemma endswith_lstrip: "endswith (lstrip s) suf \<Longrightarrow> endswith s suf"
proof -
  assume "endswith (lstrip s) suf"
  then obtain p where "lstrip s = p @ suf" unfolding endswith_iff ..
  then have "s = (takeWhile is_space s @ p) @ suf"
    unfolding lstrip_def by (metis append.assoc takeWhile_dropWhile_id)
  then show ?thesis unfolding endswith_iff ..
qed

lemma looks_like_filename_lstrip:
  "looks_like_filename (lstrip s) \<Longrightarrow> looks_like_filename s"
  by (auto simp: looks_like_filename_def endswith_any_def dest: endswith_lstrip)

lemma rstrip_eq_self_iff: "rstrip s = s \<longleftrightarrow> s = [] \<or> \<not> is_space (last s)"
proof (cases "rev s")
  case Nil
  then show ?thesis by (simp add: rstrip_def)
next
  case (Cons x xs)
  then have s: "s = rev xs @ [x]" by (metis rev.simps(2) rev_rev_ident)
  show ?thesis
  proof (cases "is_space x")
    case True
    have "length (rstrip s) \<le> length xs"
      using True by (simp add: rstrip_def s length_dropWhile_le)
    then have "rstrip s \<noteq> s" using s by auto
    then show ?thesis using True s by simp
  next
    case False
    then show ?thesis by (simp add: rstrip_def s)
  qed
qed

lemma last_dropWhile:
  "dropWhile P xs \<noteq> [] \<Longrightarrow> last (dropWhile P xs) = last xs"
  by (induction xs) (auto split: if_splits)

text \<open>Without white space at its end, a string is stripped on the left only.\<close>

lemma strip_no_trailing: "rstrip s = s \<Longrightarrow> strip s = lstrip s"
proof -
  assume a: "rstrip s = s"
  show ?thesis
  proof (cases "lstrip s = []")
    case True
    then show ?thesis by (simp add: strip_def rstrip_def)
  next
    case False
    then have "s \<noteq> []" by (auto simp: lstrip_def)
    moreover have "last (lstrip s) = last s"
      using False unfolding lstrip_def by (rule last_dropWhile)
    ultimately have "rstrip (lstrip s) = lstrip s"
      using a False by (simp add: rstrip_eq_self_iff)
    then show ?thesis by (simp add: strip_def)
  qed
qed

lemma hd_dropWhile_rev:
  "rev (dropWhile P (rev xs)) \<noteq> [] \<Longrightarrow> hd (rev (dropWhile P (rev xs))) = hd xs"
proof (induction xs rule: rev_induct)
  case Nil
  then show ?case by simp
next
  case (snoc x xs)
  then show ?case by (cases xs) (auto split: if_splits)
qed

text \<open>\<^verbatim>\<open>s.strip().strip() == s.strip()\<close>\<close>

lemma strip_strip: "strip (strip s) = strip s"
proof -
  let ?u = "lstrip s"
  have l: "lstrip (rstrip ?u) = rstrip ?u"
  proof (cases "rstrip ?u = []")
    case True
    then show ?thesis by (simp add: lstrip_def)
  next
    case False
    then have ne: "?u \<noteq> []" by (auto simp: rstrip_def)
    have "hd (rstrip ?u) = hd ?u"
      using False unfolding rstrip_def by (rule hd_dropWhile_rev)
    moreover have "\<not> is_space (hd ?u)"
      using ne unfolding lstrip_def by (rule hd_dropWhile)
    ultimately show ?thesis
      using False unfolding lstrip_def by (cases "rstrip (dropWhile is_space s)") auto
  qed
  have r: "rstrip (rstrip ?u) = rstrip ?u"
    by (simp add: rstrip_def)
  show ?thesis
    unfolding strip_def l r ..
qed

section \<open>The tank id\<close>

lemma clean_service_absent:
  assumes "raw ''service'' = None" and "raw ''Service'' = None" and "raw ''product'' = None"
  shows "clean_service raw = Inr (PStr '''')"
  using assms by (simp add: clean_service_def dict_get_def lower_def service_mapping_def)

lemma field_of_tank_id:
  assumes "clean_tank_id raw = Inr tid" and "clean_service raw = Inr sv"
  shows "field_of (validate_and_clean_excel_data clk raw) ''tank_id'' = Some tid"
  using assms by (simp add: validate_cases field_of_def)

text \<open>
  C2. The claim: for every raw field bag the \<^verbatim>\<open>tank_id\<close> of the record is a non-empty
  string that does not end in \<^verbatim>\<open>.xlsx\<close>, \<^verbatim>\<open>.xls\<close> or \<^verbatim>\<open>.csv\<close>, also when the bag has no
  tank identifier and when \<^verbatim>\<open>tank_number\<close> or \<^verbatim>\<open>unit_id\<close> hold a file name. The code is
  there to keep file names out of the tank id (the comment of line 20), and lets them in:
  \<^item> line 22 tests the raw string and line 25 strips it afterwards, so a file name
    followed by white space passes the test and is the tank id once stripped;
  \<^item> line 24 takes \<^verbatim>\<open>tank_number\<close>, else \<^verbatim>\<open>unit_id\<close>, and tests neither, so a file name
    there is the tank id.

  The sentinel \<^verbatim>\<open>UNKNOWN\<close> is written only on that second path: a bag without a tank
  identifier, or with a blank one, gives the empty string. All of this at every reading
  of the clock.
\<close>

theorem tank_id_filename_reaches_record:
  "field_of (validate_and_clean_excel_data clk [''tank_id'' \<mapsto> PStr ''sheet1.xlsx ''])
      ''tank_id'' = Some (PStr ''sheet1.xlsx'')
   \<and> looks_like_filename ''sheet1.xlsx''
   \<and> field_of (validate_and_clean_excel_data clk
        [''tank_id'' \<mapsto> PStr ''sheet1.xlsx'', ''tank_number'' \<mapsto> PStr ''backup.xlsx''])
      ''tank_id'' = Some (PStr ''backup.xlsx'')
   \<and> looks_like_filename ''backup.xlsx''
   \<and> field_of (validate_and_clean_excel_data clk
        [''tank_id'' \<mapsto> PStr ''sheet1.xlsx'', ''unit_id'' \<mapsto> PStr ''units.csv''])
      ''tank_id'' = Some (PStr ''units.csv'')
   \<and> looks_like_filename ''units.csv''
   \<and> field_of (validate_and_clean_excel_data clk Map.empty) ''tank_id'' = Some (PStr '''')
   \<and> field_of (validate_and_clean_excel_data clk [''tank_id'' \<mapsto> PStr ''  ''])
      ''tank_id'' = Some (PStr '''')"
proof -
  let ?blank = "[''tank_id'' \<mapsto> PStr ''sheet1.xlsx '']"
  let ?number = "[''tank_id'' \<mapsto> PStr ''sheet1.xlsx'', ''tank_number'' \<mapsto> PStr ''backup.xlsx'']"
  let ?unit = "[''tank_id'' \<mapsto> PStr ''sheet1.xlsx'', ''unit_id'' \<mapsto> PStr ''units.csv'']"
  let ?spaces = "[''tank_id'' \<mapsto> PStr ''  '']"
  have t1: "clean_tank_id ?blank = Inr (PStr ''sheet1.xlsx'')"
    by (simp add: clean_tank_id_def dict_get_def Let_def string_eval)
  have t2: "clean_tank_id ?number = Inr (PStr ''backup.xlsx'')"
    by (simp add: clean_tank_id_def dict_get_def Let_def string_eval)
  have t3: "clean_tank_id ?unit = Inr (PStr ''units.csv'')"
    by (simp add: clean_tank_id_def dict_get_def Let_def string_eval)
  have t4: "clean_tank_id Map.empty = Inr (PStr '''')"
    by (simp add: clean_tank_id_def dict_get_def Let_def string_eval)
  have t5: "clean_tank_id ?spaces = Inr (PStr '''')"
    by (simp add: clean_tank_id_def dict_get_def Let_def string_eval)
  have f: "looks_like_filename ''sheet1.xlsx''" "looks_like_filename ''backup.xlsx''"
    "looks_like_filename ''units.csv''"
    by (simp_all add: string_eval)
  have r1: "field_of (validate_and_clean_excel_data clk ?blank) ''tank_id''
      = Some (PStr ''sheet1.xlsx'')"
    by (rule field_of_tank_id [OF t1]) (simp add: clean_service_absent)
  have r2: "field_of (validate_and_clean_excel_data clk ?number) ''tank_id''
      = Some (PStr ''backup.xlsx'')"
    by (rule field_of_tank_id [OF t2]) (simp add: clean_service_absent)
  have r3: "field_of (validate_and_clean_excel_data clk ?unit) ''tank_id''
      = Some (PStr ''units.csv'')"
    by (rule field_of_tank_id [OF t3]) (simp add: clean_service_absent)
  have r4: "field_of (validate_and_clean_excel_data clk Map.empty) ''tank_id'' = Some (PStr '''')"
    by (rule field_of_tank_id [OF t4]) (simp add: clean_service_absent)
  have r5: "field_of (validate_and_clean_excel_data clk ?spaces) ''tank_id'' = Some (PStr '''')"
    by (rule field_of_tank_id [OF t5]) (simp add: clean_service_absent)
  from r1 f(1) r2 f(2) r3 f(3) r4 r5 show ?thesis by (intro conjI)
qed

text \<open>
  C4. When the tank identifier the bag resolves ends in \<^verbatim>\<open>.xlsx\<close>, \<^verbatim>\<open>.xls\<close> or \<^verbatim>\<open>.csv\<close>, the
  \<^verbatim>\<open>tank_id\<close> of the record is taken from \<^verbatim>\<open>tank_number\<close>, else from \<^verbatim>\<open>unit_id\<close>, else it is
  \<^verbatim>\<open>UNKNOWN\<close> (converted with \<^verbatim>\<open>str\<close> and stripped, as every tank id is). The bag
  \<^verbatim>\<open>{tank_id: "sheet1.xlsx", tank_number: "T-42"}\<close> gives \<^verbatim>\<open>T-42\<close> and the bag
  \<^verbatim>\<open>{tank_id: "sheet1.xlsx"}\<close> gives \<^verbatim>\<open>UNKNOWN\<close>, at every reading of the clock.
\<close>

theorem tank_id_fallback:
  "(dict_get raw ''tank_id'' (dict_get raw ''Tank ID'' (PStr '''')) = PStr s
      \<and> looks_like_filename s
      \<and> validate_and_clean_excel_data clk raw = Inr c
    \<longrightarrow> c ''tank_id'' = Some (PStr (strip (py_str
          (dict_get raw ''tank_number'' (dict_get raw ''unit_id'' (PStr ''UNKNOWN'')))))))
   \<and> field_of (validate_and_clean_excel_data clk
        [''tank_id'' \<mapsto> PStr ''sheet1.xlsx'', ''tank_number'' \<mapsto> PStr ''T-42'']) ''tank_id''
     = Some (PStr ''T-42'')
   \<and> field_of (validate_and_clean_excel_data clk [''tank_id'' \<mapsto> PStr ''sheet1.xlsx''])
        ''tank_id''
     = Some (PStr ''UNKNOWN'')"
proof (intro conjI impI)
  assume a: "dict_get raw ''tank_id'' (dict_get raw ''Tank ID'' (PStr '''')) = PStr s
      \<and> looks_like_filename s \<and> validate_and_clean_excel_data clk raw = Inr c"
  from validate_fields(1) [of clk raw c] a obtain tid
    where "clean_tank_id raw = Inr tid" and "c ''tank_id'' = Some tid" by blast
  then show "c ''tank_id'' = Some (PStr (strip (py_str
      (dict_get raw ''tank_number'' (dict_get raw ''unit_id'' (PStr ''UNKNOWN''))))))"
    using a clean_tank_id_str [of raw s] by simp
next
  let ?raw = "[''tank_id'' \<mapsto> PStr ''sheet1.xlsx'', ''tank_number'' \<mapsto> PStr ''T-42'']"
  have "clean_tank_id ?raw = Inr (PStr ''T-42'')"
    by (simp add: clean_tank_id_def dict_get_def Let_def string_eval)
  then show "field_of (validate_and_clean_excel_data clk ?raw) ''tank_id'' = Some (PStr ''T-42'')"
    by (simp add: field_of_tank_id clean_service_absent)
next
  let ?raw = "[''tank_id'' \<mapsto> PStr ''sheet1.xlsx'']"
  have "clean_tank_id ?raw = Inr (PStr ''UNKNOWN'')"
    by (simp add: clean_tank_id_def dict_get_def Let_def string_eval)
  then show "field_of (validate_and_clean_excel_data clk ?raw) ''tank_id''
      = Some (PStr ''UNKNOWN'')"
    by (simp add: field_of_tank_id clean_service_absent)
qed

theorem tank_id_fallback_witness:
  "field_of (validate_and_clean_excel_data sample_clock
      [''tank_id'' \<mapsto> PStr ''report.xls'', ''unit_id'' \<mapsto> PStr '' U-7 '']) ''tank_id''
     = Some (PStr ''U-7'')"
proof -
  let ?raw = "[''tank_id'' \<mapsto> PStr ''report.xls'', ''unit_id'' \<mapsto> PStr '' U-7 '']"
  have s: "dict_get ?raw ''tank_id'' (dict_get ?raw ''Tank ID'' (PStr '''')) = PStr ''report.xls''"
    by (simp add: dict_get_def)
  have v: "dict_get ?raw ''service''
      (dict_get ?raw ''Service'' (dict_get ?raw ''product'' (PStr ''''))) = PStr ''''"
    by (simp add: dict_get_def)
  have f: "looks_like_filename ''report.xls''"
    by (simp add: string_eval)
  obtain c where c: "validate_and_clean_excel_data sample_clock ?raw = Inr c"
    using validate_returns [OF s v] by blast
  have "dict_get ?raw ''tank_id'' (dict_get ?raw ''Tank ID'' (PStr '''')) = PStr ''report.xls''
      \<and> looks_like_filename ''report.xls''
      \<and> validate_and_clean_excel_data sample_clock ?raw = Inr c"
    using s f c by simp
  with tank_id_fallback [of ?raw "''report.xls''" sample_clock c]
  have "c ''tank_id'' = Some (PStr (strip (py_str
      (dict_get ?raw ''tank_number'' (dict_get ?raw ''unit_id'' (PStr ''UNKNOWN''))))))"
    by blast
  then show ?thesis
    using c by (simp add: field_of_def dict_get_def string_eval)
qed

section \<open>The service type\<close>

lemma clean_tank_id_absent:
  assumes "raw ''tank_id'' = None" and "raw ''Tank ID'' = None"
  shows "clean_tank_id raw = Inr (PStr '''')"
  using assms by (simp add: clean_tank_id_def dict_get_def Let_def string_eval)

lemma validate_Inr:
  assumes "clean_tank_id raw = Inr tid" and "clean_service raw = Inr sv"
  shows "validate_and_clean_excel_data clk raw =
           Inr [''tank_id'' \<mapsto> tid,
                ''report_number'' \<mapsto> clean_report_number clk raw,
                ''service'' \<mapsto> sv,
                ''inspector'' \<mapsto> clean_inspector raw,
                ''inspection_date'' \<mapsto> clean_inspection_date clk raw,
                ''diameter'' \<mapsto> clean_numeric_field raw ''diameter'',
                ''height'' \<mapsto> clean_numeric_field raw ''height'',
                ''capacity'' \<mapsto> clean_numeric_field raw ''capacity'',
                ''year_built'' \<mapsto> clean_numeric_field raw ''year_built'',
                ''shell_material'' \<mapsto> clean_text_field raw ''shell_material'',
                ''roof_type'' \<mapsto> clean_text_field raw ''roof_type'',
                ''foundation_type'' \<mapsto> clean_text_field raw ''foundation_type'']"
  using assms by (simp add: validate_cases)

lemma field_of_service:
  assumes "clean_tank_id raw = Inr tid" and "clean_service raw = Inr sv"
  shows "field_of (validate_and_clean_excel_data clk raw) ''service'' = Some sv"
  using assms by (simp add: validate_cases field_of_def)

text \<open>
  C7. The service string the bag resolves (\<^verbatim>\<open>service\<close>, else \<^verbatim>\<open>Service\<close>, else \<^verbatim>\<open>product\<close>) is
  lowercased and looked up in the fixed table: an entry gives its canonical name, and a
  string without an entry passes through as it was written. Every string whose
  lowercase form is \<^verbatim>\<open>crude_oil\<close> or \<^verbatim>\<open>crude oil\<close> gives \<^verbatim>\<open>Crude Oil\<close>; so do the bags
  \<^verbatim>\<open>{service: "crude_oil"}\<close>, \<^verbatim>\<open>{Service: "crude oil"}\<close> and \<^verbatim>\<open>{service: "Crude Oil"}\<close>, at
  every reading of the clock.
\<close>

theorem service_normalization:
  "(dict_get raw ''service'' (dict_get raw ''Service'' (dict_get raw ''product'' (PStr '''')))
        = PStr s
      \<and> validate_and_clean_excel_data clk raw = Inr c
    \<longrightarrow> (service_mapping (lower s) = Some canonical \<longrightarrow> c ''service'' = Some (PStr canonical))
      \<and> (service_mapping (lower s) = None \<longrightarrow> c ''service'' = Some (PStr s))
      \<and> (lower s = ''crude_oil'' \<or> lower s = ''crude oil''
           \<longrightarrow> c ''service'' = Some (PStr ''Crude Oil'')))
   \<and> field_of (validate_and_clean_excel_data clk [''service'' \<mapsto> PStr ''crude_oil''])
        ''service'' = Some (PStr ''Crude Oil'')
   \<and> field_of (validate_and_clean_excel_data clk [''Service'' \<mapsto> PStr ''crude oil''])
        ''service'' = Some (PStr ''Crude Oil'')
   \<and> field_of (validate_and_clean_excel_data clk [''service'' \<mapsto> PStr ''Crude Oil''])
        ''service'' = Some (PStr ''Crude Oil'')"
proof (intro conjI impI)
  assume a: "dict_get raw ''service''
      (dict_get raw ''Service'' (dict_get raw ''product'' (PStr ''''))) = PStr s
    \<and> validate_and_clean_excel_data clk raw = Inr c"
  from validate_fields(3) [of clk raw c] a obtain sv
    where "clean_service raw = Inr sv" and "c ''service'' = Some sv" by blast
  with a clean_service_str [of raw s]
  have sv: "c ''service''
      = Some (PStr (case service_mapping (lower s) of Some k \<Rightarrow> k | None \<Rightarrow> s))"
    by simp
  {
    assume "service_mapping (lower s) = Some canonical"
    with sv show "c ''service'' = Some (PStr canonical)" by simp
  next
    assume "service_mapping (lower s) = None"
    with sv show "c ''service'' = Some (PStr s)" by simp
  next
    assume "lower s = ''crude_oil'' \<or> lower s = ''crude oil''"
    then have "service_mapping (lower s) = Some ''Crude Oil''"
      by (auto simp: service_mapping_def)
    with sv show "c ''service'' = Some (PStr ''Crude Oil'')" by simp
  }
next
  let ?raw = "[''service'' \<mapsto> PStr ''crude_oil'']"
  have "clean_service ?raw = Inr (PStr ''Crude Oil'')"
    by (simp add: clean_service_def dict_get_def Let_def service_mapping_def string_eval)
  then show "field_of (validate_and_clean_excel_data clk ?raw) ''service''
      = Some (PStr ''Crude Oil'')"
    by (simp add: field_of_service clean_tank_id_absent)
next
  let ?raw = "[''Service'' \<mapsto> PStr ''crude oil'']"
  have "clean_service ?raw = Inr (PStr ''Crude Oil'')"
    by (simp add: clean_service_def dict_get_def Let_def service_mapping_def string_eval)
  then show "field_of (validate_and_clean_excel_data clk ?raw) ''service''
      = Some (PStr ''Crude Oil'')"
    by (simp add: field_of_service clean_tank_id_absent)
next
  let ?raw = "[''service'' \<mapsto> PStr ''Crude Oil'']"
  have "clean_service ?raw = Inr (PStr ''Crude Oil'')"
    by (simp add: clean_service_def dict_get_def Let_def service_mapping_def string_eval)
  then show "field_of (validate_and_clean_excel_data clk ?raw) ''service''
      = Some (PStr ''Crude Oil'')"
    by (simp add: field_of_service clean_tank_id_absent)
qed

theorem service_normalization_witness:
  "field_of (validate_and_clean_excel_data sample_clock [''product'' \<mapsto> PStr ''DIESEL''])
     ''service'' = Some (PStr ''Diesel'')
   \<and> field_of (validate_and_clean_excel_data sample_clock [''service'' \<mapsto> PStr ''Jet Fuel''])
       ''service'' = Some (PStr ''Jet Fuel'')
   \<and> field_of (validate_and_clean_excel_data sample_clock [''service'' \<mapsto> PStr ''CRUDE_OIL''])
       ''service'' = Some (PStr ''Crude Oil'')"
proof -
  let ?raw1 = "[''product'' \<mapsto> PStr ''DIESEL'']"
  let ?raw2 = "[''service'' \<mapsto> PStr ''Jet Fuel'']"
  let ?raw3 = "[''service'' \<mapsto> PStr ''CRUDE_OIL'']"
  have s1: "dict_get ?raw1 ''service''
      (dict_get ?raw1 ''Service'' (dict_get ?raw1 ''product'' (PStr ''''))) = PStr ''DIESEL''"
    and s2: "dict_get ?raw2 ''service''
      (dict_get ?raw2 ''Service'' (dict_get ?raw2 ''product'' (PStr ''''))) = PStr ''Jet Fuel''"
    and s3: "dict_get ?raw3 ''service''
      (dict_get ?raw3 ''Service'' (dict_get ?raw3 ''product'' (PStr ''''))) = PStr ''CRUDE_OIL''"
    by (simp_all add: dict_get_def)
  have t1: "dict_get ?raw1 ''tank_id'' (dict_get ?raw1 ''Tank ID'' (PStr '''')) = PStr ''''"
    and t2: "dict_get ?raw2 ''tank_id'' (dict_get ?raw2 ''Tank ID'' (PStr '''')) = PStr ''''"
    and t3: "dict_get ?raw3 ''tank_id'' (dict_get ?raw3 ''Tank ID'' (PStr '''')) = PStr ''''"
    by (simp_all add: dict_get_def)
  obtain c1 where c1: "validate_and_clean_excel_data sample_clock ?raw1 = Inr c1"
    using validate_returns [OF t1 s1] by blast
  obtain c2 where c2: "validate_and_clean_excel_data sample_clock ?raw2 = Inr c2"
    using validate_returns [OF t2 s2] by blast
  obtain c3 where c3: "validate_and_clean_excel_data sample_clock ?raw3 = Inr c3"
    using validate_returns [OF t3 s3] by blast
  have m1: "service_mapping (lower ''DIESEL'') = Some ''Diesel''"
    and m2: "service_mapping (lower ''Jet Fuel'') = None"
    and m3: "lower ''CRUDE_OIL'' = ''crude_oil''"
    by (simp_all add: service_mapping_def string_eval)
  from service_normalization [of ?raw1 "''DIESEL''" sample_clock c1 "''Diesel''"] s1 c1 m1
  have "c1 ''service'' = Some (PStr ''Diesel'')" by blast
  moreover
  from service_normalization [of ?raw2 "''Jet Fuel''" sample_clock c2] s2 c2 m2
  have "c2 ''service'' = Some (PStr ''Jet Fuel'')" by blast
  moreover
  from service_normalization [of ?raw3 "''CRUDE_OIL''" sample_clock c3] s3 c3 m3
  have "c3 ''service'' = Some (PStr ''Crude Oil'')" by blast
  ultimately show ?thesis
    using c1 c2 c3 by (simp add: field_of_def)
qed

section \<open>Numeric fields\<close>

lemma validate_dom:
  assumes "validate_and_clean_excel_data clk raw = Inr c"
  shows "dom c = {''tank_id'', ''report_number'', ''service'', ''inspector'',
      ''inspection_date'', ''diameter'', ''height'', ''capacity'', ''year_built'',
      ''shell_material'', ''roof_type'', ''foundation_type''}"
proof -
  from validate_InrD [OF assms] obtain tid sv where
    "c = [''tank_id'' \<mapsto> tid,
          ''report_number'' \<mapsto> clean_report_number clk raw,
          ''service'' \<mapsto> sv,
          ''inspector'' \<mapsto> clean_inspector raw,
          ''inspection_date'' \<mapsto> clean_inspection_date clk raw,
          ''diameter'' \<mapsto> clean_numeric_field raw ''diameter'',
          ''height'' \<mapsto> clean_numeric_field raw ''height'',
          ''capacity'' \<mapsto> clean_numeric_field raw ''capacity'',
          ''year_built'' \<mapsto> clean_numeric_field raw ''year_built'',
          ''shell_material'' \<mapsto> clean_text_field raw ''shell_material'',
          ''roof_type'' \<mapsto> clean_text_field raw ''roof_type'',
          ''foundation_type'' \<mapsto> clean_text_field raw ''foundation_type'']"
    by blast
  then have "dom c = insert ''foundation_type'' (insert ''roof_type''
      (insert ''shell_material'' (insert ''year_built'' (insert ''capacity''
      (insert ''height'' (insert ''diameter'' (insert ''inspection_date''
      (insert ''inspector'' (insert ''service'' (insert ''report_number''
      (insert ''tank_id'' {})))))))))))"
    by (simp only: dom_fun_upd dom_empty option.simps if_False)
  then show ?thesis
    by (simp only: insert_commute)
qed

text \<open>
  C3. The claim: the call returns a list of diagnostics beside the record, and for
  \<^verbatim>\<open>{diameter: "abc"}\<close> the list has an entry of kind \<^verbatim>\<open>FieldCoercionFailed\<close>. The code
  returns \<^verbatim>\<open>cleaned_data\<close> alone: for this bag the whole result is the dictionary below,
  with the twelve fields of the record and nothing else.
\<close>

theorem numeric_defaulting_counterexample:
  "validate_and_clean_excel_data sample_clock [''diameter'' \<mapsto> PStr ''abc''] =
     Inr [''tank_id'' \<mapsto> PStr '''',
          ''report_number'' \<mapsto> PStr ''IMP-1751694680592'',
          ''service'' \<mapsto> PStr '''',
          ''inspector'' \<mapsto> PStr ''Unknown Inspector'',
          ''inspection_date'' \<mapsto> PDate \<lparr>year = 2025, month = 7, day = 5\<rparr>,
          ''diameter'' \<mapsto> PInt 0,
          ''height'' \<mapsto> PInt 0,
          ''capacity'' \<mapsto> PInt 0,
          ''year_built'' \<mapsto> PInt 0,
          ''shell_material'' \<mapsto> PStr '''',
          ''roof_type'' \<mapsto> PStr '''',
          ''foundation_type'' \<mapsto> PStr '''']"
proof -
  let ?raw = "[''diameter'' \<mapsto> PStr ''abc'']"
  have abc: "float_of_str ''abc'' = Inl (Exn ''ValueError'' ''could not convert string to float'')"
    by (simp add: float_of_str_def float_strip_def is_float_space_def is_digit_def lower_def
        lower_char_def parse_decimal_def)
  have "clean_tank_id ?raw = Inr (PStr '''')"
    by (simp add: clean_tank_id_absent)
  moreover have "clean_service ?raw = Inr (PStr '''')"
    by (simp add: clean_service_absent)
  moreover have "clean_report_number sample_clock ?raw = PStr ''IMP-1751694680592''"
    by (simp add: clean_report_number_def dict_get_def sample_clock_def string_eval)
  moreover have "clean_inspector ?raw = PStr ''Unknown Inspector''"
    by (simp add: clean_inspector_def dict_get_def string_eval)
  moreover have "clean_inspection_date sample_clock ?raw
      = PDate \<lparr>year = 2025, month = 7, day = 5\<rparr>"
    by (simp add: clean_inspection_date_def dict_get_def sample_clock_def)
  moreover have "clean_numeric_field ?raw ''diameter'' = PInt 0"
    by (simp add: clean_numeric_field_def dict_get_def abc)
  moreover have "clean_numeric_field ?raw ''height'' = PInt 0"
    "clean_numeric_field ?raw ''capacity'' = PInt 0"
    "clean_numeric_field ?raw ''year_built'' = PInt 0"
    by (simp_all add: clean_numeric_field_def dict_get_def field_labels)
  moreover have "clean_text_field ?raw ''shell_material'' = PStr ''''"
    "clean_text_field ?raw ''roof_type'' = PStr ''''"
    "clean_text_field ?raw ''foundation_type'' = PStr ''''"
    by (simp_all add: clean_text_field_def dict_get_def field_labels strip_def lstrip_def
        rstrip_def)
  ultimately show ?thesis
    by (simp add: validate_Inr)
qed

text \<open>
  C3, as amended. The call returns the record alone, a dictionary with exactly the
  twelve cleaned fields and no list of diagnostics. When a numeric field (\<^verbatim>\<open>diameter\<close>,
  \<^verbatim>\<open>height\<close>, \<^verbatim>\<open>capacity\<close>, \<^verbatim>\<open>year_built\<close>) resolves to a string that \<^verbatim>\<open>float\<close> rejects, as it
  rejects \<^verbatim>\<open>abc\<close>, the field of the record is the integer 0 (which Python compares equal
  to \<^verbatim>\<open>0.0\<close>).
\<close>

theorem numeric_defaulting:
  "(validate_and_clean_excel_data clk raw = Inr c
      \<and> field \<in> set numeric_fields
      \<and> dict_get raw field (dict_get raw (field_label field) (PInt 0)) = PStr s
      \<and> float_of_str s = Inl e
    \<longrightarrow> c field = Some (PInt 0))
   \<and> (validate_and_clean_excel_data clk raw = Inr c
    \<longrightarrow> dom c = {''tank_id'', ''report_number'', ''service'', ''inspector'',
          ''inspection_date'', ''diameter'', ''height'', ''capacity'', ''year_built'',
          ''shell_material'', ''roof_type'', ''foundation_type''})
   \<and> float_of_str ''abc'' = Inl (Exn ''ValueError'' ''could not convert string to float'')
   \<and> field_of (validate_and_clean_excel_data clk [''diameter'' \<mapsto> PStr ''abc'']) ''diameter''
       = Some (PInt 0)"
proof (intro conjI impI)
  assume a: "validate_and_clean_excel_data clk raw = Inr c
      \<and> field \<in> set numeric_fields
      \<and> dict_get raw field (dict_get raw (field_label field) (PInt 0)) = PStr s
      \<and> float_of_str s = Inl e"
  then have v: "clean_numeric_field raw field = PInt 0"
    by (simp add: clean_numeric_field_def)
  from a have "field = ''diameter'' \<or> field = ''height'' \<or> field = ''capacity''
      \<or> field = ''year_built''"
    by (simp add: numeric_fields_def)
  then show "c field = Some (PInt 0)"
    using validate_fields(6-9) [of clk raw c] a v by auto
next
  assume "validate_and_clean_excel_data clk raw = Inr c"
  then show "dom c = {''tank_id'', ''report_number'', ''service'',
      ''inspector'', ''inspection_date'', ''diameter'', ''height'', ''capacity'', ''year_built'',
      ''shell_material'', ''roof_type'', ''foundation_type''}"
    by (rule validate_dom)
next
  show abc: "float_of_str ''abc'' = Inl (Exn ''ValueError'' ''could not convert string to float'')"
    by (simp add: float_of_str_def float_strip_def is_float_space_def is_digit_def lower_def
        lower_char_def parse_decimal_def)
  let ?raw = "[''diameter'' \<mapsto> PStr ''abc'']"
  have "clean_numeric_field ?raw ''diameter'' = PInt 0"
    by (simp add: clean_numeric_field_def dict_get_def abc)
  then show "field_of (validate_and_clean_excel_data clk ?raw) ''diameter'' = Some (PInt 0)"
    by (simp add: validate_Inr [OF clean_tank_id_absent clean_service_absent] field_of_def)
qed

theorem numeric_defaulting_witness:
  "field_of (validate_and_clean_excel_data sample_clock [''Year Built'' \<mapsto> PStr ''n/a''])
     ''year_built'' = Some (PInt 0)
   \<and> dom (projr (validate_and_clean_excel_data sample_clock [''Year Built'' \<mapsto> PStr ''n/a'']))
     = {''tank_id'', ''report_number'', ''service'', ''inspector'',
        ''inspection_date'', ''diameter'', ''height'', ''capacity'', ''year_built'',
        ''shell_material'', ''roof_type'', ''foundation_type''}"
proof -
  let ?raw = "[''Year Built'' \<mapsto> PStr ''n/a'']"
  have t: "dict_get ?raw ''tank_id'' (dict_get ?raw ''Tank ID'' (PStr '''')) = PStr ''''"
    and s: "dict_get ?raw ''service''
      (dict_get ?raw ''Service'' (dict_get ?raw ''product'' (PStr ''''))) = PStr ''''"
    by (simp_all add: dict_get_def)
  obtain c where c: "validate_and_clean_excel_data sample_clock ?raw = Inr c"
    using validate_returns [OF t s] by blast
  have f: "''year_built'' \<in> set numeric_fields"
    by (simp add: numeric_fields_def)
  have v: "dict_get ?raw ''year_built'' (dict_get ?raw (field_label ''year_built'') (PInt 0))
      = PStr ''n/a''"
    by (simp add: dict_get_def field_labels)
  have e: "float_of_str ''n/a'' = Inl (Exn ''ValueError'' ''could not convert string to float'')"
    by (simp add: float_of_str_def float_strip_def is_float_space_def is_digit_def lower_def
        lower_char_def parse_decimal_def)
  note nd = numeric_defaulting [of sample_clock ?raw c "''year_built''" "''n/a''"
      "Exn ''ValueError'' ''could not convert string to float''"]
  have "c ''year_built'' = Some (PInt 0)"
    by (rule nd [THEN conjunct1, THEN mp]) (intro conjI c f v e)
  moreover have "dom c = {''tank_id'', ''report_number'', ''service'', ''inspector'',
        ''inspection_date'', ''diameter'', ''height'', ''capacity'', ''year_built'',
        ''shell_material'', ''roof_type'', ''foundation_type''}"
    by (rule nd [THEN conjunct2, THEN conjunct1, THEN mp]) (rule c)
  ultimately show ?thesis
    using c by (simp add: field_of_def)
qed

section \<open>The inspection date\<close>

subsection \<open>What \<^verbatim>\<open>strptime\<close> accepts\<close>

lemma digit_val_le: "is_digit c \<Longrightarrow> digit_val c \<le> 9"
  unfolding is_digit_def digit_val_def Let_def by linarith

lemma length_four: "length xs = 4 \<Longrightarrow> \<exists>a b c e. xs = [a, b, c, e]"
  by (auto simp: numeral_eq_Suc length_Suc_conv)

lemma nonzero_digit_val:
  assumes "is_nonzero_digit c"
  shows "1 \<le> digit_val c" and "digit_val c \<le> 9"
proof -
  have "of_char c \<noteq> (48 :: nat)"
  proof
    assume "of_char c = (48 :: nat)"
    then have "c = char_of (48 :: nat)" by (metis char_of_char)
    moreover have "char_of (48 :: nat) = CHR ''0''" by (simp add: char_of_def bit_Suc_0_iff)
    ultimately show False using assms by (simp add: is_nonzero_digit_def)
  qed
  moreover from assms have "48 \<le> (of_char c :: nat)" and "(of_char c :: nat) \<le> 57"
    by (simp_all add: is_nonzero_digit_def is_digit_def Let_def)
  ultimately show "1 \<le> digit_val c" and "digit_val c \<le> 9"
    unfolding digit_val_def by linarith+
qed

lemma expect_char_Some: "expect_char c s = Some r \<Longrightarrow> s = c # r"
  by (cases s) (simp_all add: expect_char_def split: if_splits)

lemma match_year_shape:
  assumes "match_year s = Some (y, rest)"
  shows "\<exists>ys. s = ys @ rest \<and> length ys = 4 \<and> list_all is_digit ys
           \<and> y = nat_of_digits ys \<and> y \<le> 9999"
proof -
  from assms have l: "4 \<le> length s" and d: "list_all is_digit (take 4 s)"
    and y: "y = nat_of_digits (take 4 s)" and r: "rest = drop 4 s"
    by (simp_all add: match_year_def split: if_splits)
  from l have "length (take 4 s) = 4" by simp
  then obtain a b c e where t: "take 4 s = [a, b, c, e]"
    using length_four by blast
  with d have "digit_val a \<le> 9" "digit_val b \<le> 9" "digit_val c \<le> 9" "digit_val e \<le> 9"
    by (simp_all add: digit_val_le)
  then have "nat_of_digits (take 4 s) \<le> 9999"
    by (simp add: t nat_of_digits_def)
  with l d y r show ?thesis
    by (intro exI [of _ "take 4 s"]) simp
qed

lemma match_month_shape:
  assumes "match_month r = Some (m, rest)"
  shows "\<exists>ms. r = ms @ rest \<and> (length ms = 1 \<or> length ms = 2) \<and> 1 \<le> m \<and> m \<le> 12"
proof (cases r rule: match_month.cases)
  case 1
  with assms show ?thesis by simp
next
  case (2 c)
  with assms have "is_nonzero_digit c" and "m = digit_val c" and "rest = []"
    by (simp_all split: if_splits)
  with 2 nonzero_digit_val [of c] show ?thesis
    by (intro exI [of _ "[c]"]) simp
next
  case (3 c1 c2 cs)
  consider (two) "rest = cs" "m = 10 + digit_val c2"
      "c2 = CHR ''0'' \<or> c2 = CHR ''1'' \<or> c2 = CHR ''2''"
    | (zero) "rest = cs" "m = digit_val c2" "is_nonzero_digit c2"
    | (one) "rest = c2 # cs" "m = digit_val c1" "is_nonzero_digit c1"
    using assms 3 by (auto split: if_splits)
  then show ?thesis
  proof cases
    case two
    then have "m = 10 \<or> m = 11 \<or> m = 12" by (auto simp: digit_val_def)
    with two 3 show ?thesis
      by (intro exI [of _ "[c1, c2]"]) auto
  next
    case zero
    with 3 nonzero_digit_val [of c2] show ?thesis
      by (intro exI [of _ "[c1, c2]"]) simp
  next
    case one
    with 3 nonzero_digit_val [of c1] show ?thesis
      by (intro exI [of _ "[c1]"]) simp
  qed
qed

lemma match_day_shape:
  assumes "match_day r = Some (d, rest)"
  shows "\<exists>ds. r = ds @ rest \<and> (length ds = 1 \<or> length ds = 2) \<and> 1 \<le> d \<and> d \<le> 31"
proof (cases r rule: match_day.cases)
  case 1
  with assms show ?thesis by simp
next
  case (2 c)
  with assms have "is_nonzero_digit c" and "d = digit_val c" and "rest = []"
    by (simp_all split: if_splits)
  with 2 nonzero_digit_val [of c] show ?thesis
    by (intro exI [of _ "[c]"]) simp
next
  case (3 c1 c2 cs)
  consider (thirty) "rest = cs" "d = 30 + digit_val c2" "c2 = CHR ''0'' \<or> c2 = CHR ''1''"
    | (teens) "rest = cs" "d = 10 * digit_val c1 + digit_val c2"
        "c1 = CHR ''1'' \<or> c1 = CHR ''2''" "is_digit c2"
    | (padded) "rest = cs" "d = digit_val c2" "is_nonzero_digit c2"
    | (one) "rest = c2 # cs" "d = digit_val c1" "is_nonzero_digit c1"
    using assms 3 by (auto split: if_splits)
  then show ?thesis
  proof cases
    case thirty
    then have "d = 30 \<or> d = 31" by (auto simp: digit_val_def)
    with thirty 3 show ?thesis
      by (intro exI [of _ "[c1, c2]"]) auto
  next
    case teens
    then have "digit_val c1 = 1 \<or> digit_val c1 = 2" by (auto simp: digit_val_def)
    with teens digit_val_le [of c2] have "10 \<le> d \<and> d \<le> 29" by auto
    with teens 3 show ?thesis
      by (intro exI [of _ "[c1, c2]"]) auto
  next
    case padded
    with 3 nonzero_digit_val [of c2] show ?thesis
      by (intro exI [of _ "[c1, c2]"]) simp
  next
    case one
    with 3 nonzero_digit_val [of c1] show ?thesis
      by (intro exI [of _ "[c1]"]) simp
  qed
qed

text \<open>
  A string that \<^verbatim>\<open>strptime\<close> accepts is four digits, a hyphen, one or two characters of
  month, a hyphen and one or two characters of day, and the date is a date of the
  calendar.
\<close>

lemma strptime_ymd_shape:
  assumes "strptime_ymd s = Inr d"
  shows "\<exists>ys ms ds. s = ys @ ''-'' @ ms @ ''-'' @ ds
           \<and> length ys = 4 \<and> list_all is_digit ys \<and> year d = nat_of_digits ys
           \<and> (length ms = 1 \<or> length ms = 2) \<and> (length ds = 1 \<or> length ds = 2)
           \<and> 1 \<le> year d \<and> year d \<le> 9999 \<and> 1 \<le> month d \<and> month d \<le> 12
           \<and> 1 \<le> day d \<and> day d \<le> days_in_month (year d) (month d)"
proof -
  from assms obtain y m dd where
    m: "match_ymd s = Some (y, m, dd, [])" and y1: "1 \<le> y" and dm: "dd \<le> days_in_month y m"
    and d: "d = \<lparr>year = y, month = m, day = dd\<rparr>"
    by (auto simp: strptime_ymd_def split: option.splits if_splits)
  from m obtain r1 r2 r3 r4 where
    my: "match_year s = Some (y, r1)" and e1: "expect_char CHR ''-'' r1 = Some r2"
    and mm: "match_month r2 = Some (m, r3)" and e2: "expect_char CHR ''-'' r3 = Some r4"
    and md: "match_day r4 = Some (dd, [])"
    by (auto simp: match_ymd_def bind_eq_Some_conv)
  from match_year_shape [OF my] obtain ys where
    ys: "s = ys @ r1" "length ys = 4" "list_all is_digit ys" "y = nat_of_digits ys" "y \<le> 9999"
    by blast
  from match_month_shape [OF mm] obtain ms where
    ms: "r2 = ms @ r3" "length ms = 1 \<or> length ms = 2" "1 \<le> m" "m \<le> 12" by blast
  from match_day_shape [OF md] obtain ds where
    ds: "r4 = ds @ []" "length ds = 1 \<or> length ds = 2" "1 \<le> dd" "dd \<le> 31" by blast
  have "s = ys @ ''-'' @ ms @ ''-'' @ ds"
    using ys(1) ms(1) ds(1) expect_char_Some [OF e1] expect_char_Some [OF e2] by simp
  with ys ms ds y1 dm d show ?thesis
    by (intro exI [of _ ys] exI [of _ ms] exI [of _ ds]) simp
qed

lemma strptime_ymd_examples:
  "strptime_ymd ''13/45/2021'' = Inl (Exn ''ValueError'' ''time data does not match format'')"
  "strptime_ymd ''03/05/2021'' = Inl (Exn ''ValueError'' ''time data does not match format'')"
  "strptime_ymd ''2021-02-30'' = Inl (Exn ''ValueError'' ''day is out of range for month'')"
  "strptime_ymd ''2021-03-05'' = Inr \<lparr>year = 2021, month = 3, day = 5\<rparr>"
  "strptime_ymd '''' = Inl (Exn ''ValueError'' ''time data does not match format'')"
  by (simp_all add: strptime_ymd_def match_ymd_def match_year_def is_digit_def expect_char_def
      is_nonzero_digit_def nat_of_digits_def digit_val_def days_in_month_def is_leap_def)

subsection \<open>The date of the record\<close>

lemma field_of_inspection_date:
  assumes "clean_tank_id raw = Inr tid" and "clean_service raw = Inr sv"
  shows "field_of (validate_and_clean_excel_data clk raw) ''inspection_date''
           = Some (clean_inspection_date clk raw)"
  using assms by (simp add: validate_cases field_of_def)

text \<open>
  C8. The inspection date the bag resolves (\<^verbatim>\<open>inspection_date\<close>, else \<^verbatim>\<open>Inspection Date\<close>) is
  parsed, when it is a string, with the one format \<^verbatim>\<open>%Y-%m-%d\<close>: a string that parses
  gives its date, and such a string is four digits, a hyphen, a month and a hyphen and
  a day of one or two characters each; a string that does not parse, such as
  \<^verbatim>\<open>13/45/2021\<close>, gives the date of the clock; a date object passes through unchanged;
  and a bag without the field gives the date of the clock.
\<close>

theorem inspection_date_resolution:
  "(validate_and_clean_excel_data clk raw = Inr c
      \<and> dict_get raw ''inspection_date'' (dict_get raw ''Inspection Date'' (PStr '''')) = v
    \<longrightarrow> (v = PStr s \<and> strptime_ymd s = Inr d \<longrightarrow> c ''inspection_date'' = Some (PDate d))
      \<and> (v = PStr s \<and> strptime_ymd s = Inl e
           \<longrightarrow> c ''inspection_date'' = Some (PDate (today clk)))
      \<and> (v = PDate d' \<longrightarrow> c ''inspection_date'' = Some (PDate d'))
      \<and> (raw ''inspection_date'' = None \<and> raw ''Inspection Date'' = None
           \<longrightarrow> c ''inspection_date'' = Some (PDate (today clk))))
   \<and> (strptime_ymd s = Inr d
    \<longrightarrow> (\<exists>ys ms ds. s = ys @ ''-'' @ ms @ ''-'' @ ds
           \<and> length ys = 4 \<and> list_all is_digit ys \<and> year d = nat_of_digits ys
           \<and> (length ms = 1 \<or> length ms = 2) \<and> (length ds = 1 \<or> length ds = 2)
           \<and> 1 \<le> year d \<and> year d \<le> 9999 \<and> 1 \<le> month d \<and> month d \<le> 12
           \<and> 1 \<le> day d \<and> day d \<le> days_in_month (year d) (month d)))
   \<and> strptime_ymd ''13/45/2021''
       = Inl (Exn ''ValueError'' ''time data does not match format'')
   \<and> field_of (validate_and_clean_excel_data clk [''inspection_date'' \<mapsto> PStr ''13/45/2021''])
        ''inspection_date'' = Some (PDate (today clk))"
proof (intro conjI impI)
  assume a: "validate_and_clean_excel_data clk raw = Inr c
      \<and> dict_get raw ''inspection_date'' (dict_get raw ''Inspection Date'' (PStr '''')) = v"
  then have c: "c ''inspection_date'' = Some (clean_inspection_date clk raw)"
    using validate_fields(5) by blast
  from a have v: "dict_get raw ''inspection_date''
      (dict_get raw ''Inspection Date'' (PStr '''')) = v" ..
  {
    assume "v = PStr s \<and> strptime_ymd s = Inr d"
    moreover from this have "s \<noteq> []" by (auto simp: strptime_ymd_examples)
    ultimately show "c ''inspection_date'' = Some (PDate d)"
      using c v by (simp add: clean_inspection_date_def Let_def)
  next
    assume "v = PStr s \<and> strptime_ymd s = Inl e"
    then show "c ''inspection_date'' = Some (PDate (today clk))"
      using c v by (simp add: clean_inspection_date_def Let_def)
  next
    assume "v = PDate d'"
    then show "c ''inspection_date'' = Some (PDate d')"
      using c v by (simp add: clean_inspection_date_def Let_def)
  next
    assume "raw ''inspection_date'' = None \<and> raw ''Inspection Date'' = None"
    then show "c ''inspection_date'' = Some (PDate (today clk))"
      using c by (simp add: clean_inspection_date_def dict_get_def Let_def)
  }
next
  assume "strptime_ymd s = Inr d"
  then show "\<exists>ys ms ds. s = ys @ ''-'' @ ms @ ''-'' @ ds
      \<and> length ys = 4 \<and> list_all is_digit ys \<and> year d = nat_of_digits ys
      \<and> (length ms = 1 \<or> length ms = 2) \<and> (length ds = 1 \<or> length ds = 2)
      \<and> 1 \<le> year d \<and> year d \<le> 9999 \<and> 1 \<le> month d \<and> month d \<le> 12
      \<and> 1 \<le> day d \<and> day d \<le> days_in_month (year d) (month d)"
    by (rule strptime_ymd_shape)
next
  show "strptime_ymd ''13/45/2021''
      = Inl (Exn ''ValueError'' ''time data does not match format'')"
    by (rule strptime_ymd_examples)
next
  let ?raw = "[''inspection_date'' \<mapsto> PStr ''13/45/2021'']"
  have "clean_inspection_date clk ?raw = PDate (today clk)"
    by (simp add: clean_inspection_date_def dict_get_def strptime_ymd_examples)
  then show "field_of (validate_and_clean_excel_data clk ?raw) ''inspection_date''
      = Some (PDate (today clk))"
    by (simp add: field_of_inspection_date clean_tank_id_absent clean_service_absent)
qed

theorem inspection_date_resolution_witness:
  "field_of (validate_and_clean_excel_data sample_clock
      [''inspection_date'' \<mapsto> PStr ''2021-03-05'']) ''inspection_date''
     = Some (PDate \<lparr>year = 2021, month = 3, day = 5\<rparr>)
   \<and> field_of (validate_and_clean_excel_data sample_clock
      [''Inspection Date'' \<mapsto> PStr ''03/05/2021'']) ''inspection_date''
     = Some (PDate \<lparr>year = 2025, month = 7, day = 5\<rparr>)
   \<and> field_of (validate_and_clean_excel_data sample_clock
      [''inspection_date'' \<mapsto> PDate \<lparr>year = 2019, month = 12, day = 31\<rparr>]) ''inspection_date''
     = Some (PDate \<lparr>year = 2019, month = 12, day = 31\<rparr>)
   \<and> field_of (validate_and_clean_excel_data sample_clock Map.empty) ''inspection_date''
     = Some (PDate \<lparr>year = 2025, month = 7, day = 5\<rparr>)"
proof -
  let ?raw1 = "[''inspection_date'' \<mapsto> PStr ''2021-03-05'']"
  let ?raw2 = "[''Inspection Date'' \<mapsto> PStr ''03/05/2021'']"
  let ?raw3 = "[''inspection_date'' \<mapsto> PDate \<lparr>year = 2019, month = 12, day = 31\<rparr>]"
  let ?raw4 = "Map.empty :: pydict"
  have ret: "\<exists>c. validate_and_clean_excel_data sample_clock raw = Inr c"
    if "raw ''tank_id'' = None" "raw ''Tank ID'' = None" "raw ''service'' = None"
      "raw ''Service'' = None" "raw ''product'' = None" for raw
    using that by (simp add: validate_Inr [OF clean_tank_id_absent clean_service_absent])
  obtain c1 where c1: "validate_and_clean_excel_data sample_clock ?raw1 = Inr c1"
    using ret [of ?raw1] by auto
  obtain c2 where c2: "validate_and_clean_excel_data sample_clock ?raw2 = Inr c2"
    using ret [of ?raw2] by auto
  obtain c3 where c3: "validate_and_clean_excel_data sample_clock ?raw3 = Inr c3"
    using ret [of ?raw3] by auto
  obtain c4 where c4: "validate_and_clean_excel_data sample_clock ?raw4 = Inr c4"
    using ret [of ?raw4] by auto
  have v1: "dict_get ?raw1 ''inspection_date'' (dict_get ?raw1 ''Inspection Date'' (PStr ''''))
      = PStr ''2021-03-05''"
    and v2: "dict_get ?raw2 ''inspection_date'' (dict_get ?raw2 ''Inspection Date'' (PStr ''''))
      = PStr ''03/05/2021''"
    and v3: "dict_get ?raw3 ''inspection_date'' (dict_get ?raw3 ''Inspection Date'' (PStr ''''))
      = PDate \<lparr>year = 2019, month = 12, day = 31\<rparr>"
    and v4: "dict_get ?raw4 ''inspection_date'' (dict_get ?raw4 ''Inspection Date'' (PStr ''''))
      = PStr ''''"
    by (simp_all add: dict_get_def)
  note r1 = inspection_date_resolution [of sample_clock ?raw1 c1 "PStr ''2021-03-05''"
      "''2021-03-05''" "\<lparr>year = 2021, month = 3, day = 5\<rparr>", THEN conjunct1, THEN mp]
  note r2 = inspection_date_resolution [of sample_clock ?raw2 c2 "PStr ''03/05/2021''"
      "''03/05/2021''" _ "Exn ''ValueError'' ''time data does not match format''",
      THEN conjunct1, THEN mp]
  note r3 = inspection_date_resolution [of sample_clock ?raw3 c3
      "PDate \<lparr>year = 2019, month = 12, day = 31\<rparr>" _ _ _
      "\<lparr>year = 2019, month = 12, day = 31\<rparr>", THEN conjunct1, THEN mp]
  note r4 = inspection_date_resolution [of sample_clock ?raw4 c4 "PStr ''''",
      THEN conjunct1, THEN mp]
  have "c1 ''inspection_date'' = Some (PDate \<lparr>year = 2021, month = 3, day = 5\<rparr>)"
    using r1 c1 v1 by (simp add: strptime_ymd_examples)
  moreover
  have "c2 ''inspection_date'' = Some (PDate (today sample_clock))"
    using r2 c2 v2 by (simp add: strptime_ymd_examples)
  moreover
  have "c3 ''inspection_date'' = Some (PDate \<lparr>year = 2019, month = 12, day = 31\<rparr>)"
    using r3 c3 v3 by simp
  moreover
  have "c4 ''inspection_date'' = Some (PDate (today sample_clock))"
    using r4 c4 v4 by simp
  ultimately show ?thesis
    using c1 c2 c3 c4 by (simp add: field_of_def sample_clock_def)
qed

section \<open>The clock\<close>

lemma field_of_report_number:
  assumes "clean_tank_id raw = Inr tid" and "clean_service raw = Inr sv"
  shows "field_of (validate_and_clean_excel_data clk raw) ''report_number''
           = Some (clean_report_number clk raw)"
  using assms by (simp add: validate_cases field_of_def)

text \<open>
  C6. The claim: two runs on equal bags give equal records. The function reads the
  clock: for the empty bag a run at one millisecond and a run at the next generate the
  report numbers \<^verbatim>\<open>IMP-1751694680592\<close> and \<^verbatim>\<open>IMP-1751694680593\<close>.
\<close>

theorem determinism_counterexample:
  "field_of (validate_and_clean_excel_data sample_clock Map.empty) ''report_number''
     = Some (PStr ''IMP-1751694680592'')
   \<and> field_of (validate_and_clean_excel_data later_clock Map.empty) ''report_number''
     = Some (PStr ''IMP-1751694680593'')
   \<and> validate_and_clean_excel_data sample_clock Map.empty
     \<noteq> validate_and_clean_excel_data later_clock Map.empty"
proof -
  have a: "clean_report_number sample_clock Map.empty = PStr ''IMP-1751694680592''"
    by (simp add: clean_report_number_def dict_get_def sample_clock_def string_eval)
  have b: "clean_report_number later_clock Map.empty = PStr ''IMP-1751694680593''"
    by (simp add: clean_report_number_def dict_get_def later_clock_def string_eval)
  have fa: "field_of (validate_and_clean_excel_data sample_clock Map.empty) ''report_number''
      = Some (PStr ''IMP-1751694680592'')"
    by (simp add: field_of_report_number clean_tank_id_absent clean_service_absent a)
  have fb: "field_of (validate_and_clean_excel_data later_clock Map.empty) ''report_number''
      = Some (PStr ''IMP-1751694680593'')"
    by (simp add: field_of_report_number clean_tank_id_absent clean_service_absent b)
  have "validate_and_clean_excel_data sample_clock Map.empty
      \<noteq> validate_and_clean_excel_data later_clock Map.empty"
  proof
    assume "validate_and_clean_excel_data sample_clock Map.empty
      = validate_and_clean_excel_data later_clock Map.empty"
    with fa fb show False by simp
  qed
  with fa fb show ?thesis by simp
qed

text \<open>
  C6, as amended. The record is a function of the bag and of two readings of the clock,
  and the bag is only read (with \<^verbatim>\<open>get\<close>). The millisecond reading matters only when the
  report number the bag resolves is false as a condition (absent, empty, zero), and the
  date reading only when the inspection date is false as a condition or a string that
  does not parse: two runs on the same bag give the same result, a record or an
  exception, when the bag has a report number or the runs read the same millisecond,
  and the bag has a usable inspection date or the runs read the same date.
\<close>

theorem clock_dependence:
  assumes "truthy (dict_get raw ''report_number'' (dict_get raw ''Report Number'' (PStr '''')))
      \<or> timestamp_ms clk1 = timestamp_ms clk2"
    and "dict_get raw ''inspection_date'' (dict_get raw ''Inspection Date'' (PStr '''')) = v"
    and "(truthy v \<and> (\<forall>s. v = PStr s \<longrightarrow> (\<exists>d. strptime_ymd s = Inr d)))
      \<or> today clk1 = today clk2"
  shows "validate_and_clean_excel_data clk1 raw = validate_and_clean_excel_data clk2 raw"
proof -
  have rn: "clean_report_number clk1 raw = clean_report_number clk2 raw"
    using assms(1) by (auto simp: clean_report_number_def Let_def)
  have dt: "clean_inspection_date clk1 raw = clean_inspection_date clk2 raw"
  proof (cases "today clk1 = today clk2")
    case True
    show ?thesis unfolding clean_inspection_date_def True by (rule refl)
  next
    case False
    with assms(3) have t: "truthy v"
      and p: "\<forall>s. v = PStr s \<longrightarrow> (\<exists>d. strptime_ymd s = Inr d)" by auto
    show ?thesis
    proof (cases v)
      case (PStr s)
      with p obtain d where "strptime_ymd s = Inr d" by blast
      with PStr assms(2) t show ?thesis
        by (simp add: clean_inspection_date_def Let_def)
    qed (use assms(2) t in \<open>simp_all add: clean_inspection_date_def Let_def\<close>)
  qed
  show ?thesis
    unfolding validate_cases rn dt by (rule refl)
qed

theorem clock_dependence_witness:
  "validate_and_clean_excel_data sample_clock
       (sample_data(''inspection_date'' \<mapsto> PStr ''2021-03-05''))
     = validate_and_clean_excel_data new_year_clock
         (sample_data(''inspection_date'' \<mapsto> PStr ''2021-03-05''))
   \<and> validate_and_clean_excel_data sample_clock [''report_number'' \<mapsto> PStr ''R-1'']
     = validate_and_clean_excel_data later_clock [''report_number'' \<mapsto> PStr ''R-1'']"
proof -
  let ?raw = "sample_data(''inspection_date'' \<mapsto> PStr ''2021-03-05'')"
  let ?bag = "[''report_number'' \<mapsto> PStr ''R-1'']"
  have rn: "truthy (dict_get ?raw ''report_number'' (dict_get ?raw ''Report Number'' (PStr '''')))
      \<or> timestamp_ms sample_clock = timestamp_ms new_year_clock"
    by (simp add: dict_get_def sample_data_def)
  have v: "dict_get ?raw ''inspection_date'' (dict_get ?raw ''Inspection Date'' (PStr ''''))
      = PStr ''2021-03-05''"
    by (simp add: dict_get_def)
  have d: "(truthy (PStr ''2021-03-05'')
        \<and> (\<forall>s. PStr ''2021-03-05'' = PStr s \<longrightarrow> (\<exists>d. strptime_ymd s = Inr d)))
      \<or> today sample_clock = today new_year_clock"
    by (simp add: strptime_ymd_examples)
  have e1: "truthy (dict_get ?bag ''report_number'' (dict_get ?bag ''Report Number'' (PStr '''')))
      \<or> timestamp_ms sample_clock = timestamp_ms later_clock"
    by (simp add: dict_get_def)
  have e2: "dict_get ?bag ''inspection_date''
      (dict_get ?bag ''Inspection Date'' (PStr '''')) = PStr ''''"
    by (simp add: dict_get_def)
  have e3: "(truthy (PStr '''') \<and> (\<forall>s. PStr '''' = PStr s \<longrightarrow> (\<exists>d. strptime_ymd s = Inr d)))
      \<or> today sample_clock = today later_clock"
    by (simp add: sample_clock_def later_clock_def)
  from clock_dependence [OF rn v d] clock_dependence [OF e1 e2 e3]
  show ?thesis by (rule conjI)
qed

section \<open>Reconciling a record again\<close>

text \<open>The canonical names of the table are fixed points of the normalization.\<close>

lemma service_mapping_canonical:
  assumes "service_mapping k = Some v"
  shows "service_mapping (lower v) = Some v"
proof -
  from assms have "v = ''Crude Oil'' \<or> v = ''Diesel'' \<or> v = ''Gasoline'' \<or> v = ''Alcohol''
      \<or> v = ''Fish Oil and Sludge Oil'' \<or> v = ''Other''"
    by (auto simp: service_mapping_def split: if_splits)
  then show ?thesis
    by (elim disjE) (simp_all add: service_mapping_def string_eval)
qed

lemma clean_inspection_date_value:
  "truthy (clean_inspection_date clk raw) \<and> (\<forall>s. clean_inspection_date clk raw \<noteq> PStr s)"
proof (cases "dict_get raw ''inspection_date'' (dict_get raw ''Inspection Date'' (PStr ''''))")
  case (PStr s)
  then show ?thesis
    by (simp add: clean_inspection_date_def Let_def split: sum.splits)
qed (simp_all add: clean_inspection_date_def Let_def)

lemma clean_numeric_field_value:
  "clean_numeric_field raw field = PInt 0 \<or> (\<exists>x. clean_numeric_field raw field = PFloat x)"
  by (simp add: clean_numeric_field_def Let_def split: sum.splits)

text \<open>The steps of the second run, on a bag that holds a cleaned value under its own key.\<close>

lemma clean_text_field_again:
  assumes "c field = Some (clean_text_field raw field)"
  shows "clean_text_field c field = clean_text_field raw field"
  using assms by (simp add: clean_text_field_def dict_get_def Let_def strip_strip)

lemma clean_inspector_again:
  assumes "c ''inspector'' = Some (clean_inspector raw)"
  shows "clean_inspector c = clean_inspector raw"
  using assms by (simp add: clean_inspector_def dict_get_def Let_def strip_strip)

lemma clean_inspection_date_again:
  assumes "c ''inspection_date'' = Some (clean_inspection_date clk1 raw)"
  shows "clean_inspection_date clk2 c = clean_inspection_date clk1 raw"
proof -
  from clean_inspection_date_value [of clk1 raw]
  have t: "truthy (clean_inspection_date clk1 raw)"
    and n: "\<And>s. clean_inspection_date clk1 raw \<noteq> PStr s" by auto
  have v: "dict_get c ''inspection_date'' (dict_get c ''Inspection Date'' (PStr ''''))
      = clean_inspection_date clk1 raw"
    using assms by (simp add: dict_get_def)
  show ?thesis
  proof (cases "clean_inspection_date clk1 raw")
    case (PStr s)
    with n [of s] show ?thesis by simp
  qed (use t in \<open>simp_all add: clean_inspection_date_def [of clk2 c] v\<close>)
qed

lemma clean_numeric_field_again:
  assumes "c field = Some (clean_numeric_field raw field)"
  shows "clean_numeric_field c field = clean_numeric_field raw field
      \<or> (\<exists>x. clean_numeric_field raw field = PFloat x \<and> \<not> float_bool x
            \<and> clean_numeric_field c field = PInt 0)"
proof -
  have v: "dict_get c field (dict_get c (field_label field) (PInt 0))
      = clean_numeric_field raw field"
    using assms by (simp add: dict_get_def)
  from clean_numeric_field_value [of raw field] show ?thesis
  proof
    assume z: "clean_numeric_field raw field = PInt 0"
    then show ?thesis by (simp add: clean_numeric_field_def [of c] v)
  next
    assume "\<exists>x. clean_numeric_field raw field = PFloat x"
    then obtain x where x: "clean_numeric_field raw field = PFloat x" ..
    then show ?thesis by (simp add: clean_numeric_field_def [of c] v)
  qed
qed

lemma clean_service_again:
  assumes "clean_service raw = Inr sv" and "c ''service'' = Some sv"
  shows "clean_service c = Inr sv"
proof -
  from clean_service_Inr [OF assms(1)] obtain s where
    s: "dict_get raw ''service''
          (dict_get raw ''Service'' (dict_get raw ''product'' (PStr ''''))) = PStr s" ..
  let ?s' = "case service_mapping (lower s) of Some canonical \<Rightarrow> canonical | None \<Rightarrow> s"
  have sv: "sv = PStr ?s'"
    using assms(1) clean_service_str [OF s] by simp
  have v: "dict_get c ''service''
      (dict_get c ''Service'' (dict_get c ''product'' (PStr ''''))) = PStr ?s'"
    using assms(2) sv by (simp add: dict_get_def)
  have "(case service_mapping (lower ?s') of Some canonical \<Rightarrow> canonical | None \<Rightarrow> ?s') = ?s'"
  proof (cases "service_mapping (lower s)")
    case None
    then show ?thesis by simp
  next
    case (Some canonical)
    with service_mapping_canonical [OF Some] show ?thesis by simp
  qed
  with clean_service_str [OF v] sv show ?thesis by simp
qed

text \<open>
  C9. The claim: reconciling the record of a reconciliation again changes no field. It
  fails for a record whose tank id is a file name (taken from \<^verbatim>\<open>tank_number\<close>): the second
  run finds no \<^verbatim>\<open>tank_number\<close> in the record and writes \<^verbatim>\<open>UNKNOWN\<close>. It fails for a record
  whose report number is empty (stripped from a blank one): the second run generates a
  report number.
\<close>

theorem idempotence_counterexample:
  "field_of (validate_and_clean_excel_data sample_clock
      [''tank_id'' \<mapsto> PStr ''sheet1.xlsx'', ''tank_number'' \<mapsto> PStr ''backup.xlsx''])
      ''tank_id'' = Some (PStr ''backup.xlsx'')
   \<and> field_of (validate_and_clean_excel_data sample_clock
        (projr (validate_and_clean_excel_data sample_clock
          [''tank_id'' \<mapsto> PStr ''sheet1.xlsx'', ''tank_number'' \<mapsto> PStr ''backup.xlsx''])))
      ''tank_id'' = Some (PStr ''UNKNOWN'')
   \<and> field_of (validate_and_clean_excel_data sample_clock [''report_number'' \<mapsto> PStr '' ''])
      ''report_number'' = Some (PStr '''')
   \<and> field_of (validate_and_clean_excel_data sample_clock
        (projr (validate_and_clean_excel_data sample_clock [''report_number'' \<mapsto> PStr '' ''])))
      ''report_number'' = Some (PStr ''IMP-1751694680592'')"
proof -
  let ?raw = "[''tank_id'' \<mapsto> PStr ''sheet1.xlsx'', ''tank_number'' \<mapsto> PStr ''backup.xlsx'']"
  let ?bag = "[''report_number'' \<mapsto> PStr '' '']"
  have t1: "clean_tank_id ?raw = Inr (PStr ''backup.xlsx'')"
    by (simp add: clean_tank_id_def dict_get_def Let_def string_eval)
  have s1: "clean_service ?raw = Inr (PStr '''')"
    by (simp add: clean_service_absent)
  note v1 = validate_Inr [OF t1 s1, of sample_clock]
  let ?c1 = "projr (validate_and_clean_excel_data sample_clock ?raw)"
  have t2: "clean_tank_id ?c1 = Inr (PStr ''UNKNOWN'')"
    by (simp add: v1 clean_tank_id_def dict_get_def Let_def string_eval)
  have s2: "clean_service ?c1 = Inr (PStr '''')"
    by (simp add: v1 clean_service_def dict_get_def Let_def lower_def service_mapping_def)
  have r1: "clean_report_number sample_clock ?bag = PStr ''''"
    by (simp add: clean_report_number_def dict_get_def Let_def string_eval)
  have t3: "clean_tank_id ?bag = Inr (PStr '''')"
    by (simp add: clean_tank_id_absent)
  have s3: "clean_service ?bag = Inr (PStr '''')"
    by (simp add: clean_service_absent)
  note v3 = validate_Inr [OF t3 s3, of sample_clock]
  let ?c3 = "projr (validate_and_clean_excel_data sample_clock ?bag)"
  have t4: "clean_tank_id ?c3 = Inr (PStr '''')"
    by (simp add: v3 clean_tank_id_def dict_get_def Let_def string_eval)
  have s4: "clean_service ?c3 = Inr (PStr '''')"
    by (simp add: v3 clean_service_def dict_get_def Let_def lower_def service_mapping_def)
  have g4: "dict_get ?c3 ''report_number'' (dict_get ?c3 ''Report Number'' (PStr ''''))
      = PStr ''''"
    by (simp add: v3 r1 dict_get_def)
  have r4: "clean_report_number sample_clock ?c3 = PStr ''IMP-1751694680592''"
    unfolding clean_report_number_def g4 by (simp add: sample_clock_def string_eval)
  show ?thesis
    by (simp add: field_of_tank_id [OF t1 s1] field_of_tank_id [OF t2 s2]
        field_of_report_number [OF t3 s3] field_of_report_number [OF t4 s4] r1 r4)
qed

text \<open>
  C9, as amended. When a reconciliation returns a record whose tank id does not end in
  a spreadsheet extension and whose report number is not empty, reconciling that
  record again, at any reading of the clock, returns a record with every field
  unchanged, but for a numeric field that holds a float zero: the second run writes the
  integer 0 there (which Python compares equal to it).
\<close>

theorem reconcile_idempotent:
  assumes "validate_and_clean_excel_data clk1 raw = Inr c1"
    and "c1 ''tank_id'' = Some (PStr t)" and "\<not> looks_like_filename t"
    and "c1 ''report_number'' = Some (PStr r)" and "r \<noteq> []"
  shows "\<exists>c2. validate_and_clean_excel_data clk2 c1 = Inr c2
      \<and> (\<forall>k. k \<notin> set numeric_fields \<longrightarrow> c2 k = c1 k)
      \<and> (\<forall>k. k \<in> set numeric_fields \<longrightarrow>
            c2 k = c1 k
            \<or> (\<exists>x. c1 k = Some (PFloat x) \<and> \<not> float_bool x \<and> c2 k = Some (PInt 0)))"
proof -
  from validate_InrD [OF assms(1)] obtain tid sv where
    tid: "clean_tank_id raw = Inr tid" and sv: "clean_service raw = Inr sv"
    and c1: "c1 = [''tank_id'' \<mapsto> tid,
        ''report_number'' \<mapsto> clean_report_number clk1 raw,
        ''service'' \<mapsto> sv,
        ''inspector'' \<mapsto> clean_inspector raw,
        ''inspection_date'' \<mapsto> clean_inspection_date clk1 raw,
        ''diameter'' \<mapsto> clean_numeric_field raw ''diameter'',
        ''height'' \<mapsto> clean_numeric_field raw ''height'',
        ''capacity'' \<mapsto> clean_numeric_field raw ''capacity'',
        ''year_built'' \<mapsto> clean_numeric_field raw ''year_built'',
        ''shell_material'' \<mapsto> clean_text_field raw ''shell_material'',
        ''roof_type'' \<mapsto> clean_text_field raw ''roof_type'',
        ''foundation_type'' \<mapsto> clean_text_field raw ''foundation_type'']"
    by blast
  note f = validate_fields [OF assms(1)]
  from f(1) tid assms(2) have tid_t: "tid = PStr t" by auto
  from f(2) assms(4) have rn: "clean_report_number clk1 raw = PStr r" by simp
  from f(3) sv have sv1: "c1 ''service'' = Some sv" by auto
  text \<open>The tank id and the report number are stripped strings.\<close>
  from clean_tank_id_Inr [OF tid] obtain s where
    "dict_get raw ''tank_id'' (dict_get raw ''Tank ID'' (PStr '''')) = PStr s" ..
  from clean_tank_id_str [OF this] tid tid_t obtain u where "t = strip u" by auto
  then have st: "strip t = t" by (simp add: strip_strip)
  from rn have "\<exists>u. r = strip u"
    by (auto simp: clean_report_number_def Let_def)
  then have sr: "strip r = r" by (auto simp: strip_strip)
  text \<open>The second run, step by step.\<close>
  have t2: "clean_tank_id c1 = Inr (PStr t)"
    using assms(2,3) st by (simp add: clean_tank_id_def dict_get_def looks_like_filename_def)
  have s2: "clean_service c1 = Inr sv"
    using sv sv1 by (rule clean_service_again)
  have r2: "clean_report_number clk2 c1 = PStr r"
    using assms(4,5) sr by (simp add: clean_report_number_def dict_get_def)
  have i2: "clean_inspector c1 = clean_inspector raw"
    using f(4) by (rule clean_inspector_again)
  have d2: "clean_inspection_date clk2 c1 = clean_inspection_date clk1 raw"
    using f(5) by (rule clean_inspection_date_again)
  have x2: "clean_text_field c1 ''shell_material'' = clean_text_field raw ''shell_material''"
    "clean_text_field c1 ''roof_type'' = clean_text_field raw ''roof_type''"
    "clean_text_field c1 ''foundation_type'' = clean_text_field raw ''foundation_type''"
    using f(10-12) by (simp_all add: clean_text_field_again)
  define nd where "nd = clean_numeric_field c1 ''diameter''"
  define nh where "nh = clean_numeric_field c1 ''height''"
  define nc where "nc = clean_numeric_field c1 ''capacity''"
  define ny where "ny = clean_numeric_field c1 ''year_built''"
  note n2 = clean_numeric_field_again [of c1 "''diameter''" raw, OF f(6), folded nd_def]
    clean_numeric_field_again [of c1 "''height''" raw, OF f(7), folded nh_def]
    clean_numeric_field_again [of c1 "''capacity''" raw, OF f(8), folded nc_def]
    clean_numeric_field_again [of c1 "''year_built''" raw, OF f(9), folded ny_def]
  define c2 where "c2 = [''tank_id'' \<mapsto> PStr t,
      ''report_number'' \<mapsto> PStr r,
      ''service'' \<mapsto> sv,
      ''inspector'' \<mapsto> clean_inspector raw,
      ''inspection_date'' \<mapsto> clean_inspection_date clk1 raw,
      ''diameter'' \<mapsto> nd,
      ''height'' \<mapsto> nh,
      ''capacity'' \<mapsto> nc,
      ''year_built'' \<mapsto> ny,
      ''shell_material'' \<mapsto> clean_text_field raw ''shell_material'',
      ''roof_type'' \<mapsto> clean_text_field raw ''roof_type'',
      ''foundation_type'' \<mapsto> clean_text_field raw ''foundation_type'']"
  have v2: "validate_and_clean_excel_data clk2 c1 = Inr c2"
    unfolding validate_Inr [OF t2 s2] r2 i2 d2 x2 c2_def nd_def nh_def nc_def ny_def
    by (rule refl)
  have other: "c2 k = c1 k" if "k \<notin> set numeric_fields" for k
    using that unfolding c1 c2_def numeric_fields_def by (simp add: tid_t rn)
  have numeric: "c2 k = c1 k
      \<or> (\<exists>x. c1 k = Some (PFloat x) \<and> \<not> float_bool x \<and> c2 k = Some (PInt 0))"
    if "k \<in> set numeric_fields" for k
  proof -
    from that have "k = ''diameter'' \<or> k = ''height'' \<or> k = ''capacity'' \<or> k = ''year_built''"
      by (simp add: numeric_fields_def)
    then show ?thesis
    proof (elim disjE)
      assume "k = ''diameter''"
      with n2(1) show ?thesis unfolding c1 c2_def by simp
    next
      assume "k = ''height''"
      with n2(2) show ?thesis unfolding c1 c2_def by simp
    next
      assume "k = ''capacity''"
      with n2(3) show ?thesis unfolding c1 c2_def by simp
    next
      assume "k = ''year_built''"
      with n2(4) show ?thesis unfolding c1 c2_def by simp
    qed
  qed
  show ?thesis
  proof (intro exI [of _ c2] conjI allI impI)
    show "validate_and_clean_excel_data clk2 c1 = Inr c2" by (rule v2)
  qed (use other numeric in blast)+
qed

theorem reconcile_idempotent_witness:
  "validate_and_clean_excel_data new_year_clock
       (projr (validate_and_clean_excel_data sample_clock sample_data))
     = validate_and_clean_excel_data sample_clock sample_data"
proof -
  have t: "clean_tank_id sample_data = Inr (PStr ''TANK-TEST-001'')"
    by (simp add: clean_tank_id_def dict_get_def sample_data_def Let_def string_eval)
  have s: "clean_service sample_data = Inr (PStr ''Crude Oil'')"
    by (simp add: clean_service_def dict_get_def sample_data_def Let_def service_mapping_def
        string_eval)
  have r: "clean_report_number sample_clock sample_data = PStr ''TEST-IMPORT-001''"
    by (simp add: clean_report_number_def dict_get_def sample_data_def Let_def string_eval)
  have n: "clean_numeric_field sample_data ''diameter'' = PInt 0"
    "clean_numeric_field sample_data ''height'' = PInt 0"
    "clean_numeric_field sample_data ''capacity'' = PInt 0"
    "clean_numeric_field sample_data ''year_built'' = PInt 0"
    by (simp_all add: clean_numeric_field_def dict_get_def sample_data_def field_labels)
  obtain c1 where c1: "validate_and_clean_excel_data sample_clock sample_data = Inr c1"
    using validate_Inr [OF t s] by blast
  note f = validate_fields [OF c1]
  have h1: "c1 ''tank_id'' = Some (PStr ''TANK-TEST-001'')"
    using f(1) t by auto
  have h2: "\<not> looks_like_filename ''TANK-TEST-001''"
    by (simp add: string_eval)
  have h3: "c1 ''report_number'' = Some (PStr ''TEST-IMPORT-001'')"
    using f(2) r by simp
  have h4: "''TEST-IMPORT-001'' \<noteq> []"
    by simp
  from reconcile_idempotent [OF c1 h1 h2 h3 h4, of new_year_clock] obtain c2 where
    c2: "validate_and_clean_excel_data new_year_clock c1 = Inr c2"
    and other: "\<And>k. k \<notin> set numeric_fields \<Longrightarrow> c2 k = c1 k"
    and numeric: "\<And>k. k \<in> set numeric_fields \<Longrightarrow> c2 k = c1 k
        \<or> (\<exists>x. c1 k = Some (PFloat x) \<and> \<not> float_bool x \<and> c2 k = Some (PInt 0))"
    by blast
  have "c2 k = c1 k" for k
  proof (cases "k \<in> set numeric_fields")
    case False
    then show ?thesis by (rule other)
  next
    case True
    then have "k = ''diameter'' \<or> k = ''height'' \<or> k = ''capacity'' \<or> k = ''year_built''"
      by (simp add: numeric_fields_def)
    then have "c1 k = Some (PInt 0)"
      using f(6-9) n by auto
    with numeric [OF True] show ?thesis by auto
  qed
  then have "c2 = c1" by (rule ext)
  with c1 c2 show ?thesis by simp
qed

section \<open>The special fields\<close>

lemma fold_setattr_apply:
  "fold (\<lambda>field insp. case excel_data field of Some v \<Rightarrow> insp(field \<mapsto> v) | None \<Rightarrow> insp)
      names inspection k =
     (if k \<in> set names \<and> excel_data k \<noteq> None then excel_data k else inspection k)"
  by (induction names arbitrary: inspection) (auto split: option.splits)

lemma attach_special_fields_apply:
  "attach_special_fields excel_data inspection k =
     (if k \<in> set special_fields \<and> excel_data k \<noteq> None then excel_data k else inspection k)"
  unfolding attach_special_fields_def by (rule fold_setattr_apply)

text \<open>No special field is an argument of the constructor.\<close>

lemma map_of_filter_None:
  "map_of xs k = None \<Longrightarrow> map_of (filter P xs) k = None"
  by (induction xs) auto

lemma valid_constructor_fields_special:
  assumes "k \<in> set special_fields"
  shows "valid_constructor_fields cleaned_data k = None"
proof -
  from assms have "k = ''findings'' \<or> k = ''recommendations'' \<or> k = ''notes''"
    by (simp add: special_fields_def)
  then show ?thesis
    unfolding valid_constructor_fields_def
    by (elim disjE) (rule map_of_filter_None, simp)+
qed

lemma create_inspection_InrD:
  assumes "create_inspection_from_excel_data app clk excel_data db = (Inr inspection, db')"
  shows "\<exists>cleaned_data obj.
      validate_and_clean_excel_data clk excel_data = Inr cleaned_data
      \<and> construct app (valid_constructor_fields cleaned_data) = Inr obj
      \<and> save app (attach_special_fields excel_data obj) db = (Inr inspection, db')"
proof (cases "validate_and_clean_excel_data clk excel_data")
  case (Inl e)
  with assms show ?thesis by (simp add: create_inspection_from_excel_data_def)
next
  case cleaned: (Inr cleaned_data)
  show ?thesis
  proof (cases "construct app (valid_constructor_fields cleaned_data)")
    case (Inl e)
    with assms cleaned show ?thesis by (simp add: create_inspection_from_excel_data_def)
  next
    case obj: (Inr obj)
    obtain r db1 where saved: "save app (attach_special_fields excel_data obj) db = (r, db1)"
      by (cases "save app (attach_special_fields excel_data obj) db")
    show ?thesis
    proof (cases r)
      case (Inl e)
      with assms cleaned obj saved show ?thesis
        by (simp add: create_inspection_from_excel_data_def)
    next
      case (Inr insp)
      with assms cleaned obj saved have "insp = inspection \<and> db1 = db'"
        by (simp add: create_inspection_from_excel_data_def split: sum.splits option.splits)
      with cleaned obj saved Inr show ?thesis by simp
    qed
  qed
qed

text \<open>The report number of the record is an argument of the constructor.\<close>

lemma valid_constructor_fields_report_number:
  assumes "cleaned_data ''report_number'' = Some v" and "v \<noteq> PNone"
  shows "valid_constructor_fields cleaned_data ''report_number'' = Some v"
  unfolding valid_constructor_fields_def
  by (rule map_of_filter_in) (simp_all add: assms dict_get_def)

text \<open>A creation in the store in memory.\<close>

lemma memory_app_create:
  assumes "validate_and_clean_excel_data clk excel_data = Inr cleaned_data"
  shows "\<exists>inspection.
      create_inspection_from_excel_data memory_app clk excel_data db
        = (Inr inspection, db @ [inspection])
      \<and> inspection ''report_number'' = Some (clean_report_number clk excel_data)
      \<and> inspection ''id'' = Some (PInt (int (length db) + 1))"
proof -
  define inspection where
    "inspection = (attach_special_fields excel_data (valid_constructor_fields cleaned_data))
          (''id'' \<mapsto> PInt (int (length db) + 1))"
  have "cleaned_data ''report_number'' = Some (clean_report_number clk excel_data)"
    by (rule validate_fields(2) [OF assms(1)])
  then have "valid_constructor_fields cleaned_data ''report_number''
      = Some (clean_report_number clk excel_data)"
    by (rule valid_constructor_fields_report_number) (simp add: clean_report_number_def Let_def)
  then have rn: "inspection ''report_number'' = Some (clean_report_number clk excel_data)"
    by (simp add: inspection_def attach_special_fields_apply special_fields_def)
  have id: "inspection ''id'' = Some (PInt (int (length db) + 1))"
    by (simp add: inspection_def)
  from rn have "find (\<lambda>obj. obj ''report_number'' = Some (clean_report_number clk excel_data))
      (db @ [inspection]) \<noteq> None"
    by (auto simp: find_None_iff)
  then obtain saved where "find (\<lambda>obj. obj ''report_number''
      = Some (clean_report_number clk excel_data)) (db @ [inspection]) = Some saved"
    by blast
  with rn have "create_inspection_from_excel_data memory_app clk excel_data db
      = (Inr inspection, db @ [inspection])"
    by (simp add: create_inspection_from_excel_data_def assms(1) memory_app_def getattr_def
        inspection_def [symmetric])
  with rn id show ?thesis by blast
qed

text \<open>
  C5. The fields \<^verbatim>\<open>findings\<close>, \<^verbatim>\<open>recommendations\<close> and \<^verbatim>\<open>notes\<close> are never arguments of the
  constructor. After the construction each of them that is a key of the raw bag, under
  exactly this name, is set on the object with the raw value as it is, and nothing else
  of the object changes. So, for a class that gives its objects no such attribute of its
  own and a \<^verbatim>\<open>save\<close> that leaves these attributes alone, the created inspection has a
  special field exactly when the bag has it, with the same value: for
  \<^verbatim>\<open>{findings: "cracked weld"}\<close> it has \<^verbatim>\<open>findings\<close> and neither \<^verbatim>\<open>recommendations\<close> nor
  \<^verbatim>\<open>notes\<close>.
\<close>

theorem special_fields_carried:
  "(field \<in> set special_fields \<longrightarrow> valid_constructor_fields cleaned_data field = None)
   \<and> attach_special_fields excel_data obj field =
       (if field \<in> set special_fields \<and> excel_data field \<noteq> None then excel_data field
        else obj field)
   \<and> (create_inspection_from_excel_data app clk excel_data db = (Inr inspection, db')
      \<and> (\<forall>kwargs obj k. construct app kwargs = Inr obj \<and> k \<in> set special_fields
            \<and> kwargs k = None \<longrightarrow> obj k = None)
      \<and> (\<forall>obj db0 obj' db1 k. save app obj db0 = (Inr obj', db1) \<and> k \<in> set special_fields
            \<longrightarrow> obj' k = obj k)
      \<and> field \<in> set special_fields
    \<longrightarrow> inspection field = excel_data field)"
proof (intro conjI impI)
  assume "field \<in> set special_fields"
  then show "valid_constructor_fields cleaned_data field = None"
    by (rule valid_constructor_fields_special)
next
  show "attach_special_fields excel_data obj field =
       (if field \<in> set special_fields \<and> excel_data field \<noteq> None then excel_data field
        else obj field)"
    by (rule attach_special_fields_apply)
next
  assume a: "create_inspection_from_excel_data app clk excel_data db = (Inr inspection, db')
      \<and> (\<forall>kwargs obj k. construct app kwargs = Inr obj \<and> k \<in> set special_fields
            \<and> kwargs k = None \<longrightarrow> obj k = None)
      \<and> (\<forall>obj db0 obj' db1 k. save app obj db0 = (Inr obj', db1) \<and> k \<in> set special_fields
            \<longrightarrow> obj' k = obj k)
      \<and> field \<in> set special_fields"
  then have created: "create_inspection_from_excel_data app clk excel_data db
      = (Inr inspection, db')"
    and ctor: "\<And>kwargs obj k. construct app kwargs = Inr obj \<Longrightarrow> k \<in> set special_fields
      \<Longrightarrow> kwargs k = None \<Longrightarrow> obj k = None"
    and sv: "\<And>obj db0 obj' db1 k. save app obj db0 = (Inr obj', db1)
      \<Longrightarrow> k \<in> set special_fields \<Longrightarrow> obj' k = obj k"
    and field: "field \<in> set special_fields"
    by blast+
  from create_inspection_InrD [OF created] obtain cleaned constructed where
    "construct app (valid_constructor_fields cleaned) = Inr constructed"
    and saved: "save app (attach_special_fields excel_data constructed) db
      = (Inr inspection, db')"
    by blast
  from ctor [OF this(1) field valid_constructor_fields_special [OF field]]
  have "constructed field = None" .
  then have "attach_special_fields excel_data constructed field = excel_data field"
    using field by (simp add: attach_special_fields_apply)
  with sv [OF saved field] show "inspection field = excel_data field"
    by simp
qed

theorem special_fields_carried_witness:
  "field_of (fst (create_inspection_from_excel_data memory_app sample_clock
       [''findings'' \<mapsto> PStr ''cracked weld''] [])) ''findings'' = Some (PStr ''cracked weld'')
   \<and> field_of (fst (create_inspection_from_excel_data memory_app sample_clock
       [''findings'' \<mapsto> PStr ''cracked weld''] [])) ''recommendations'' = None
   \<and> field_of (fst (create_inspection_from_excel_data memory_app sample_clock
       [''findings'' \<mapsto> PStr ''cracked weld''] [])) ''notes'' = None
   \<and> field_of (fst (create_inspection_from_excel_data memory_app sample_clock
       [''Findings'' \<mapsto> PStr ''cracked weld''] [])) ''report_number''
       = Some (PStr ''IMP-1751694680592'')
   \<and> field_of (fst (create_inspection_from_excel_data memory_app sample_clock
       [''Findings'' \<mapsto> PStr ''cracked weld''] [])) ''findings'' = None"
proof -
  let ?bag = "[''findings'' \<mapsto> PStr ''cracked weld'']"
  let ?Bag = "[''Findings'' \<mapsto> PStr ''cracked weld'']"
  have ctor: "\<forall>kwargs obj k. construct memory_app kwargs = Inr obj \<and> k \<in> set special_fields
      \<and> kwargs k = None \<longrightarrow> obj k = None"
    by (simp add: memory_app_def)
  have sv: "\<forall>obj db0 obj' db1 k. save memory_app obj db0 = (Inr obj', db1)
      \<and> k \<in> set special_fields \<longrightarrow> obj' k = obj k"
    by (auto simp: memory_app_def special_fields_def)
  have sf: "''findings'' \<in> set special_fields" "''recommendations'' \<in> set special_fields"
    "''notes'' \<in> set special_fields"
    by (simp_all add: special_fields_def)
  have t: "clean_tank_id ?bag = Inr (PStr '''')"
    by (simp add: clean_tank_id_absent)
  have s: "clean_service ?bag = Inr (PStr '''')"
    by (simp add: clean_service_absent)
  obtain inspection where
    c: "create_inspection_from_excel_data memory_app sample_clock ?bag []
      = (Inr inspection, [] @ [inspection])"
    using memory_app_create [where db = "[]", OF validate_Inr [OF t s]] by blast
  have f: "inspection ''findings'' = ?bag ''findings''"
    by (rule special_fields_carried [where app = memory_app and clk = sample_clock
          and excel_data = ?bag and db = "[]" and inspection = inspection
          and db' = "[] @ [inspection]" and field = "''findings''",
          THEN conjunct2, THEN conjunct2, THEN mp])
      (intro conjI c ctor sv sf)
  have r: "inspection ''recommendations'' = ?bag ''recommendations''"
    by (rule special_fields_carried [where app = memory_app and clk = sample_clock
          and excel_data = ?bag and db = "[]" and inspection = inspection
          and db' = "[] @ [inspection]" and field = "''recommendations''",
          THEN conjunct2, THEN conjunct2, THEN mp])
      (intro conjI c ctor sv sf)
  have n: "inspection ''notes'' = ?bag ''notes''"
    by (rule special_fields_carried [where app = memory_app and clk = sample_clock
          and excel_data = ?bag and db = "[]" and inspection = inspection
          and db' = "[] @ [inspection]" and field = "''notes''",
          THEN conjunct2, THEN conjunct2, THEN mp])
      (intro conjI c ctor sv sf)
  have T: "clean_tank_id ?Bag = Inr (PStr '''')"
    by (simp add: clean_tank_id_absent)
  have S: "clean_service ?Bag = Inr (PStr '''')"
    by (simp add: clean_service_absent)
  have R: "clean_report_number sample_clock ?Bag = PStr ''IMP-1751694680592''"
    by (simp add: clean_report_number_def dict_get_def sample_clock_def string_eval)
  obtain other where
    C: "create_inspection_from_excel_data memory_app sample_clock ?Bag []
      = (Inr other, [] @ [other])"
    and N: "other ''report_number'' = Some (clean_report_number sample_clock ?Bag)"
    using memory_app_create [where db = "[]", OF validate_Inr [OF T S]] by blast
  have F: "other ''findings'' = ?Bag ''findings''"
    by (rule special_fields_carried [where app = memory_app and clk = sample_clock
          and excel_data = ?Bag and db = "[]" and inspection = other
          and db' = "[] @ [other]" and field = "''findings''",
          THEN conjunct2, THEN conjunct2, THEN mp])
      (intro conjI C ctor sv sf)
  show ?thesis
    by (simp add: c C f r n F N R field_of_def)
qed

section \<open>The import of a workbook\<close>

lemma import_failed_response:
  "import_failed e ''success'' = Some (PBool False)"
  "import_failed e ''error'' = Some (PStr (exn_str e))"
  by (simp_all add: import_failed_def)

text \<open>The response is the failure dictionary of some exception, or the success dictionary.\<close>

lemma process_excel_import_cases:
  "(\<exists>e. fst (process_excel_import read_excel app clk file_path db) = import_failed e)
   \<or> (\<exists>excel_data inspection db' inspection_id report_number.
        read_excel file_path = Inr excel_data
        \<and> create_inspection_from_excel_data app clk excel_data db = (Inr inspection, db')
        \<and> inspection ''id'' = Some inspection_id
        \<and> inspection ''report_number'' = Some report_number
        \<and> process_excel_import read_excel app clk file_path db =
            ([''success'' \<mapsto> PBool True,
              ''inspection_id'' \<mapsto> inspection_id,
              ''report_number'' \<mapsto> report_number,
              ''message'' \<mapsto> PStr (''Successfully imported inspection ''
                                      @ py_str report_number)], db'))"
proof (cases "read_excel file_path")
  case (Inl e)
  then show ?thesis by (auto simp: process_excel_import_def)
next
  case read: (Inr excel_data)
  obtain r db' where created: "create_inspection_from_excel_data app clk excel_data db = (r, db')"
    by (cases "create_inspection_from_excel_data app clk excel_data db")
  show ?thesis
  proof (cases r)
    case (Inl e)
    with read created show ?thesis by (auto simp: process_excel_import_def)
  next
    case (Inr inspection)
    show ?thesis
    proof (cases "inspection ''id''")
      case None
      with read created Inr show ?thesis
        by (auto simp: process_excel_import_def getattr_def)
    next
      case id: (Some inspection_id)
      show ?thesis
      proof (cases "inspection ''report_number''")
        case None
        with read created Inr id show ?thesis
          by (auto simp: process_excel_import_def getattr_def)
      next
        case (Some report_number)
        with read created Inr id show ?thesis
          by (auto simp: process_excel_import_def getattr_def)
      qed
    qed
  qed
qed

text \<open>
  C10. \<^verbatim>\<open>process_excel_import\<close> returns a dictionary for every path, with a Boolean under
  \<^verbatim>\<open>success\<close>. An exception of the reading, of the reconciliation, of the constructor or
  of \<^verbatim>\<open>save\<close>, which \<^verbatim>\<open>create_inspection_from_excel_data\<close> raises again, ends in the
  dictionary with \<^verbatim>\<open>success\<close> false and \<^verbatim>\<open>str(e)\<close> under \<^verbatim>\<open>error\<close>; a response with \<^verbatim>\<open>success\<close>
  false always has a string under \<^verbatim>\<open>error\<close>. When the inspection is created, the response
  has \<^verbatim>\<open>success\<close> true with the \<^verbatim>\<open>id\<close> and the \<^verbatim>\<open>report_number\<close> of the created object.
\<close>

theorem process_excel_import_never_raises:
  "(\<exists>b. fst (process_excel_import read_excel app clk file_path db) ''success''
          = Some (PBool b))
   \<and> (fst (process_excel_import read_excel app clk file_path db) ''success''
          = Some (PBool False)
        \<longrightarrow> (\<exists>s. fst (process_excel_import read_excel app clk file_path db) ''error''
                  = Some (PStr s)))
   \<and> (read_excel file_path = Inl e
        \<longrightarrow> process_excel_import read_excel app clk file_path db = (import_failed e, db))
   \<and> (read_excel file_path = Inr excel_data
        \<and> validate_and_clean_excel_data clk excel_data = Inl e
        \<longrightarrow> process_excel_import read_excel app clk file_path db = (import_failed e, db))
   \<and> (read_excel file_path = Inr excel_data
        \<and> validate_and_clean_excel_data clk excel_data = Inr cleaned_data
        \<and> construct app (valid_constructor_fields cleaned_data) = Inl e
        \<longrightarrow> process_excel_import read_excel app clk file_path db = (import_failed e, db))
   \<and> (read_excel file_path = Inr excel_data
        \<and> validate_and_clean_excel_data clk excel_data = Inr cleaned_data
        \<and> construct app (valid_constructor_fields cleaned_data) = Inr obj
        \<and> save app (attach_special_fields excel_data obj) db = (Inl e, db')
        \<longrightarrow> process_excel_import read_excel app clk file_path db = (import_failed e, db'))
   \<and> (read_excel file_path = Inr excel_data
        \<and> create_inspection_from_excel_data app clk excel_data db = (Inl e, db')
        \<longrightarrow> process_excel_import read_excel app clk file_path db = (import_failed e, db'))
   \<and> (read_excel file_path = Inr excel_data
        \<and> create_inspection_from_excel_data app clk excel_data db = (Inr inspection, db')
        \<and> inspection ''id'' = Some inspection_id
        \<and> inspection ''report_number'' = Some report_number
        \<longrightarrow> snd (process_excel_import read_excel app clk file_path db) = db'
          \<and> fst (process_excel_import read_excel app clk file_path db) ''success''
              = Some (PBool True)
          \<and> fst (process_excel_import read_excel app clk file_path db) ''inspection_id''
              = Some inspection_id
          \<and> fst (process_excel_import read_excel app clk file_path db) ''report_number''
              = Some report_number)
   \<and> (fst (process_excel_import read_excel app clk file_path db) ''success''
          = Some (PBool True)
        \<longrightarrow> (\<exists>excel_data inspection.
              read_excel file_path = Inr excel_data
              \<and> create_inspection_from_excel_data app clk excel_data db
                  = (Inr inspection, snd (process_excel_import read_excel app clk file_path db))
              \<and> inspection ''id''
                  = fst (process_excel_import read_excel app clk file_path db) ''inspection_id''
              \<and> inspection ''report_number''
                  = fst (process_excel_import read_excel app clk file_path db) ''report_number''
              \<and> inspection ''id'' \<noteq> None \<and> inspection ''report_number'' \<noteq> None))"
proof -
  let ?response = "fst (process_excel_import read_excel app clk file_path db)"
  note cases = process_excel_import_cases [of read_excel app clk file_path db]
  have a: "\<exists>b. ?response ''success'' = Some (PBool b)"
    using cases by (auto simp: import_failed_response)
  have b: "?response ''success'' = Some (PBool False) \<longrightarrow> (\<exists>s. ?response ''error'' = Some (PStr s))"
    using cases by (auto simp: import_failed_response)
  have c: "read_excel file_path = Inl e
      \<longrightarrow> process_excel_import read_excel app clk file_path db = (import_failed e, db)"
    by (simp add: process_excel_import_def)
  have d: "read_excel file_path = Inr excel_data
        \<and> validate_and_clean_excel_data clk excel_data = Inl e
      \<longrightarrow> process_excel_import read_excel app clk file_path db = (import_failed e, db)"
    by (simp add: process_excel_import_def create_inspection_from_excel_data_def)
  have e: "read_excel file_path = Inr excel_data
        \<and> validate_and_clean_excel_data clk excel_data = Inr cleaned_data
        \<and> construct app (valid_constructor_fields cleaned_data) = Inl e
      \<longrightarrow> process_excel_import read_excel app clk file_path db = (import_failed e, db)"
    by (simp add: process_excel_import_def create_inspection_from_excel_data_def)
  have f: "read_excel file_path = Inr excel_data
        \<and> validate_and_clean_excel_data clk excel_data = Inr cleaned_data
        \<and> construct app (valid_constructor_fields cleaned_data) = Inr obj
        \<and> save app (attach_special_fields excel_data obj) db = (Inl e, db')
      \<longrightarrow> process_excel_import read_excel app clk file_path db = (import_failed e, db')"
    by (simp add: process_excel_import_def create_inspection_from_excel_data_def)
  have g: "read_excel file_path = Inr excel_data
        \<and> create_inspection_from_excel_data app clk excel_data db = (Inl e, db')
      \<longrightarrow> process_excel_import read_excel app clk file_path db = (import_failed e, db')"
    by (simp add: process_excel_import_def)
  have h: "read_excel file_path = Inr excel_data
        \<and> create_inspection_from_excel_data app clk excel_data db = (Inr inspection, db')
        \<and> inspection ''id'' = Some inspection_id
        \<and> inspection ''report_number'' = Some report_number
      \<longrightarrow> snd (process_excel_import read_excel app clk file_path db) = db'
          \<and> ?response ''success'' = Some (PBool True)
          \<and> ?response ''inspection_id'' = Some inspection_id
          \<and> ?response ''report_number'' = Some report_number"
    by (simp add: process_excel_import_def getattr_def)
  have i: "?response ''success'' = Some (PBool True)
      \<longrightarrow> (\<exists>excel_data inspection.
              read_excel file_path = Inr excel_data
              \<and> create_inspection_from_excel_data app clk excel_data db
                  = (Inr inspection, snd (process_excel_import read_excel app clk file_path db))
              \<and> inspection ''id'' = ?response ''inspection_id''
              \<and> inspection ''report_number'' = ?response ''report_number''
              \<and> inspection ''id'' \<noteq> None \<and> inspection ''report_number'' \<noteq> None)"
  proof
    assume t: "?response ''success'' = Some (PBool True)"
    from cases show "\<exists>excel_data inspection.
              read_excel file_path = Inr excel_data
              \<and> create_inspection_from_excel_data app clk excel_data db
                  = (Inr inspection, snd (process_excel_import read_excel app clk file_path db))
              \<and> inspection ''id'' = ?response ''inspection_id''
              \<and> inspection ''report_number'' = ?response ''report_number''
              \<and> inspection ''id'' \<noteq> None \<and> inspection ''report_number'' \<noteq> None"
    proof
      assume "\<exists>e. ?response = import_failed e"
      with t show ?thesis by (auto simp: import_failed_response)
    next
      assume "\<exists>excel_data inspection db' inspection_id report_number.
        read_excel file_path = Inr excel_data
        \<and> create_inspection_from_excel_data app clk excel_data db = (Inr inspection, db')
        \<and> inspection ''id'' = Some inspection_id
        \<and> inspection ''report_number'' = Some report_number
        \<and> process_excel_import read_excel app clk file_path db =
            ([''success'' \<mapsto> PBool True,
              ''inspection_id'' \<mapsto> inspection_id,
              ''report_number'' \<mapsto> report_number,
              ''message'' \<mapsto> PStr (''Successfully imported inspection ''
                                      @ py_str report_number)], db')"
      then obtain excel_data inspection db' inspection_id report_number where
        "read_excel file_path = Inr excel_data"
        "create_inspection_from_excel_data app clk excel_data db = (Inr inspection, db')"
        "inspection ''id'' = Some inspection_id"
        "inspection ''report_number'' = Some report_number"
        "process_excel_import read_excel app clk file_path db =
            ([''success'' \<mapsto> PBool True,
              ''inspection_id'' \<mapsto> inspection_id,
              ''report_number'' \<mapsto> report_number,
              ''message'' \<mapsto> PStr (''Successfully imported inspection ''
                                      @ py_str report_number)], db')"
        by blast
      then show ?thesis by simp
    qed
  qed
  from a b c d e f g h i show ?thesis by (intro conjI)
qed

theorem process_excel_import_never_raises_witness:
  "fst (process_excel_import sample_reader memory_app sample_clock ''inspection.xlsx'' [])
       ''success'' = Some (PBool True)
   \<and> fst (process_excel_import sample_reader memory_app sample_clock ''inspection.xlsx'' [])
       ''inspection_id'' = Some (PInt 1)
   \<and> fst (process_excel_import sample_reader memory_app sample_clock ''inspection.xlsx'' [])
       ''report_number'' = Some (PStr ''TEST-IMPORT-001'')
   \<and> fst (process_excel_import sample_reader memory_app sample_clock ''missing.xlsx'' [])
       ''success'' = Some (PBool False)
   \<and> fst (process_excel_import sample_reader memory_app sample_clock ''missing.xlsx'' [])
       ''error'' = Some (PStr ''No such file or directory'')
   \<and> snd (process_excel_import sample_reader memory_app sample_clock ''missing.xlsx'' []) = []
   \<and> fst (process_excel_import (\<lambda>file_path. Inr [''tank_id'' \<mapsto> PInt 101]) memory_app
         sample_clock ''inspection.xlsx'' []) ''success'' = Some (PBool False)
   \<and> fst (process_excel_import (\<lambda>file_path. Inr [''tank_id'' \<mapsto> PInt 101]) memory_app
         sample_clock ''inspection.xlsx'' []) ''error''
       = Some (PStr ([CHR 0x27] @ ''int'' @ [CHR 0x27] @ '' object has no attribute ''
                      @ [CHR 0x27] @ ''endswith'' @ [CHR 0x27]))"
proof -
  let ?numbers = "\<lambda>file_path :: string. Inr [''tank_id'' \<mapsto> PInt 101] :: exn + pydict"
  have t: "clean_tank_id sample_data = Inr (PStr ''TANK-TEST-001'')"
    by (simp add: clean_tank_id_def dict_get_def sample_data_def Let_def string_eval)
  have s: "clean_service sample_data = Inr (PStr ''Crude Oil'')"
    by (simp add: clean_service_def dict_get_def sample_data_def Let_def service_mapping_def
        string_eval)
  have r: "clean_report_number sample_clock sample_data = PStr ''TEST-IMPORT-001''"
    by (simp add: clean_report_number_def dict_get_def sample_data_def Let_def string_eval)
  obtain inspection where
    created: "create_inspection_from_excel_data memory_app sample_clock sample_data []
      = (Inr inspection, [] @ [inspection])"
    and rn: "inspection ''report_number'' = Some (clean_report_number sample_clock sample_data)"
    and id: "inspection ''id'' = Some (PInt (int (length ([] :: pydict list)) + 1))"
    using memory_app_create [where db = "[]", OF validate_Inr [OF t s]] by blast
  have read: "sample_reader ''inspection.xlsx'' = Inr sample_data"
    by (simp add: sample_reader_def)
  have imported:
    "snd (process_excel_import sample_reader memory_app sample_clock ''inspection.xlsx'' [])
        = [] @ [inspection]
     \<and> fst (process_excel_import sample_reader memory_app sample_clock ''inspection.xlsx'' [])
        ''success'' = Some (PBool True)
     \<and> fst (process_excel_import sample_reader memory_app sample_clock ''inspection.xlsx'' [])
        ''inspection_id'' = Some (PInt (int (length ([] :: pydict list)) + 1))
     \<and> fst (process_excel_import sample_reader memory_app sample_clock ''inspection.xlsx'' [])
        ''report_number'' = Some (clean_report_number sample_clock sample_data)"
    by (rule process_excel_import_never_raises [where read_excel = sample_reader
          and app = memory_app and clk = sample_clock and file_path = "''inspection.xlsx''"
          and db = "[]" and excel_data = sample_data and inspection = inspection
          and db' = "[] @ [inspection]"
          and inspection_id = "PInt (int (length ([] :: pydict list)) + 1)"
          and report_number = "clean_report_number sample_clock sample_data",
          THEN conjunct2, THEN conjunct2, THEN conjunct2, THEN conjunct2, THEN conjunct2,
          THEN conjunct2, THEN conjunct2, THEN conjunct1, THEN mp])
      (intro conjI read created id rn)
  have missing: "sample_reader ''missing.xlsx''
      = Inl (Exn ''FileNotFoundError'' ''No such file or directory'')"
    by (simp add: sample_reader_def)
  have not_found:
    "process_excel_import sample_reader memory_app sample_clock ''missing.xlsx'' []
      = (import_failed (Exn ''FileNotFoundError'' ''No such file or directory''), [])"
    by (rule process_excel_import_never_raises [where read_excel = sample_reader
          and app = memory_app and clk = sample_clock and file_path = "''missing.xlsx''"
          and db = "[]" and e = "Exn ''FileNotFoundError'' ''No such file or directory''",
          THEN conjunct2, THEN conjunct2, THEN conjunct1, THEN mp])
      (rule missing)
  have raised: "validate_and_clean_excel_data sample_clock [''tank_id'' \<mapsto> PInt 101]
      = Inl (no_attribute (PInt 101) ''endswith'')"
    by (simp add: validate_cases clean_tank_id_def dict_get_def Let_def)
  have rejected:
    "process_excel_import ?numbers memory_app sample_clock ''inspection.xlsx'' []
      = (import_failed (no_attribute (PInt 101) ''endswith''), [])"
    by (rule process_excel_import_never_raises [where read_excel = ?numbers
          and app = memory_app and clk = sample_clock and file_path = "''inspection.xlsx''"
          and db = "[]" and excel_data = "[''tank_id'' \<mapsto> PInt 101]"
          and e = "no_attribute (PInt 101) ''endswith''",
          THEN conjunct2, THEN conjunct2, THEN conjunct2, THEN conjunct1, THEN mp])
      (intro conjI refl raised)
  show ?thesis
    by (simp add: imported r not_found rejected import_failed_response no_attribute_def)
qed

end
